theory Spec2Isabelle
  imports Complex_Main
begin

section \<open>Python values and dictionaries\<close>

text \<open>
  The services pass JSON-like values around (\<^verbatim>\<open>Dict[str, Any]\<close>). A dictionary is an
  association list with distinct keys in insertion order, as a Python \<^verbatim>\<open>dict\<close> is.
  Readings of \<^verbatim>\<open>time.time()\<close> are an explicit parameter \<open>now\<close> of every operation that
  reads the clock; they are idealised as real numbers.
\<close>

datatype pyval =
    PNone
  | PBool bool
  | PInt int
  | PFloat real
  | PStr string
  | PList "pyval list"
  | PDict "(string \<times> pyval) list"

type_synonym pydict = "(string \<times> pyval) list"

text \<open>Python truthiness, as used by \<^verbatim>\<open>x or y\<close> and \<^verbatim>\<open>if x\<close>.\<close>

fun truthy :: "pyval \<Rightarrow> bool" where
  "truthy PNone = False"
| "truthy (PBool b) = b"
| "truthy (PInt i) = (i \<noteq> 0)"
| "truthy (PFloat x) = (x \<noteq> 0)"
| "truthy (PStr s) = (s \<noteq> [])"
| "truthy (PList xs) = (xs \<noteq> [])"
| "truthy (PDict d) = (d \<noteq> [])"

definition py_or :: "pyval \<Rightarrow> pyval \<Rightarrow> pyval" where
  "py_or a b = (if truthy a then a else b)"

fun is_dict :: "pyval \<Rightarrow> bool" where
  "is_dict (PDict d) = True"
| "is_dict v = False"

text \<open>The entries of a value known to be a dictionary.\<close>

fun the_dict :: "pyval \<Rightarrow> (string \<times> pyval) list" where
  "the_dict (PDict d) = d"
| "the_dict v = []"

text \<open>\<^verbatim>\<open>k in d\<close>, \<^verbatim>\<open>d.get(k)\<close>, \<^verbatim>\<open>d[k] = v\<close>, \<^verbatim>\<open>d.pop(k, None)\<close>, \<^verbatim>\<open>d.update(other)\<close> and
  \<^verbatim>\<open>d.setdefault(k, v)\<close>.\<close>

definition dict_in :: "string \<Rightarrow> (string \<times> 'v) list \<Rightarrow> bool" where
  "dict_in k d = (map_of d k \<noteq> None)"

definition dict_get :: "pydict \<Rightarrow> string \<Rightarrow> pyval" where
  "dict_get d k = (case map_of d k of None \<Rightarrow> PNone | Some v \<Rightarrow> v)"

fun dict_set :: "string \<Rightarrow> 'v \<Rightarrow> (string \<times> 'v) list \<Rightarrow> (string \<times> 'v) list" where
  "dict_set k v [] = [(k, v)]"
| "dict_set k v ((k', v') # d) =
     (if k = k' then (k, v) # d else (k', v') # dict_set k v d)"

definition dict_pop :: "string \<Rightarrow> (string \<times> 'v) list \<Rightarrow> (string \<times> 'v) list" where
  "dict_pop k d = filter (\<lambda>(k', v'). k' \<noteq> k) d"

definition dict_update :: "pydict \<Rightarrow> pydict \<Rightarrow> pydict" where
  "dict_update d other = fold (\<lambda>(k, v). dict_set k v) other d"

definition dict_setdefault :: "pydict \<Rightarrow> string \<Rightarrow> pyval \<Rightarrow> pydict" where
  "dict_setdefault d k v = (if dict_in k d then d else dict_set k v d)"

section \<open>The registry (services/registry\_service.py)\<close>

record Tombstone =
  reason :: pyval
  at_time :: real

record RegistryRecord =
  link_id :: string
  target_uri :: pyval
  media_type :: pyval
  language :: pyval
  metadata :: pydict
  created :: real
  updated :: real
  version :: int
  withdrawn :: "Tombstone option"

text \<open>
  The exceptions of the module. \<open>LinkIdWithdrawnError\<close> carries the dictionary
  \<^verbatim>\<open>{"reason": tombstone.reason, "at": tombstone.at}\<close>. \<open>AttributeError\<close> is what
  \<^verbatim>\<open>record.metadata.setdefault\<close> raises when the payload's metadata is a truthy value that
  is not a dictionary.
\<close>

datatype error =
    LinkIdNotFoundError string
  | LinkIdWithdrawnError string pydict
  | UnauthorizedError
  | AttributeError

type_synonym store = "string \<rightharpoonup> RegistryRecord"

text \<open>
  \<^verbatim>\<open>Tombstone.__init__\<close>: \<^verbatim>\<open>self.at = at or time.time()\<close>; a missing or falsy \<open>at\<close> is
  replaced by the clock.
\<close>

definition Tombstone_init :: "pyval \<Rightarrow> real option \<Rightarrow> real \<Rightarrow> Tombstone" where
  "Tombstone_init r a now =
     \<lparr>reason = r, at_time = (case a of None \<Rightarrow> now | Some t \<Rightarrow> if t \<noteq> 0 then t else now)\<rparr>"

text \<open>
  \<^verbatim>\<open>RegistryService.create\<close>. The identifier \<^verbatim>\<open>uuid.uuid4().hex.upper()\<close> is the parameter
  \<open>lid\<close>: the code draws it from the operating system's randomness and stores the record
  under it without looking whether the key is taken. The issuer is typed \<^verbatim>\<open>str\<close> but
  \<^verbatim>\<open>ResolverService.register\<close> passes \<^verbatim>\<open>payload.get("issuer") or "unknown"\<close>, any truthy
  value, so it is a Python value here. The metadata of the record is
  \<^verbatim>\<open>payload.get("metadata") or {}\<close> (once more \<^verbatim>\<open>or {}\<close> in the constructor), then
  \<^verbatim>\<open>setdefault("issuer", issuer)\<close>.
\<close>

definition RegistryService_create ::
  "store \<Rightarrow> pydict \<Rightarrow> pyval \<Rightarrow> string \<Rightarrow> real \<Rightarrow> error + (store \<times> RegistryRecord)" where
  "RegistryService_create st payload issuer lid now =
     (case py_or (py_or (dict_get payload ''metadata'') (PDict [])) (PDict []) of
        PDict md \<Rightarrow>
          (let record = \<lparr>link_id = lid,
                 target_uri = py_or (dict_get payload ''target_uri'') (dict_get payload ''targetUri''),
                 media_type = py_or (dict_get payload ''media_type'') (dict_get payload ''mediaType''),
                 language = dict_get payload ''language'',
                 metadata = dict_setdefault md ''issuer'' issuer,
                 created = now, updated = now, version = 1, withdrawn = None\<rparr>
           in Inr (st(lid \<mapsto> record), record))
      | _ \<Rightarrow> Inl AttributeError)"

definition RegistryService_get :: "store \<Rightarrow> string \<Rightarrow> error + RegistryRecord" where
  "RegistryService_get st lid =
     (case st lid of
        None \<Rightarrow> Inl (LinkIdNotFoundError lid)
      | Some record \<Rightarrow>
          (case withdrawn record of
             Some t \<Rightarrow> Inl (LinkIdWithdrawnError lid [(''reason'', reason t), (''at'', PFloat (at_time t))])
           | None \<Rightarrow> Inr record))"

definition RegistryService_get_any :: "store \<Rightarrow> string \<Rightarrow> error + RegistryRecord" where
  "RegistryService_get_any st lid =
     (case st lid of
        None \<Rightarrow> Inl (LinkIdNotFoundError lid)
      | Some record \<Rightarrow> Inr record)"

text \<open>
  The body of \<^verbatim>\<open>RegistryService.update\<close> after the ownership check: the four \<^verbatim>\<open>if\<close>
  blocks in the order of the source, each setting \<^verbatim>\<open>changed = True\<close>, then the bump.
\<close>

definition apply_updates :: "RegistryRecord \<Rightarrow> pydict \<Rightarrow> RegistryRecord \<times> bool" where
  "apply_updates record updates =
     (let (r1, c1) =
            (if dict_in ''target_uri'' updates \<or> dict_in ''targetUri'' updates
             then (record\<lparr>target_uri :=
                     py_or (dict_get updates ''target_uri'') (dict_get updates ''targetUri'')\<rparr>, True)
             else (record, False));
          (r2, c2) =
            (if dict_in ''media_type'' updates \<or> dict_in ''mediaType'' updates
             then (r1\<lparr>media_type :=
                     py_or (dict_get updates ''media_type'') (dict_get updates ''mediaType'')\<rparr>, True)
             else (r1, c1));
          (r3, c3) =
            (if dict_in ''language'' updates
             then (r2\<lparr>language := dict_get updates ''language''\<rparr>, True)
             else (r2, c2))
      in (if dict_in ''metadata'' updates \<and> is_dict (dict_get updates ''metadata'')
          then (r3\<lparr>metadata :=
                  dict_update (metadata r3) (the_dict (dict_get updates ''metadata''))\<rparr>, True)
          else (r3, c3)))"

definition RegistryService_update ::
  "store \<Rightarrow> string \<Rightarrow> pydict \<Rightarrow> string \<Rightarrow> real \<Rightarrow> error + store" where
  "RegistryService_update st lid updates user_sub now =
     (case RegistryService_get_any st lid of
        Inl e \<Rightarrow> Inl e
      | Inr record \<Rightarrow>
          (let issuer = dict_get (metadata record) ''issuer'' in
           if truthy issuer \<and> issuer \<noteq> PStr user_sub then Inl UnauthorizedError
           else (let (r, changed) = apply_updates record updates;
                     r' = (if changed then r\<lparr>version := version r + 1, updated := now\<rparr> else r)
                 in Inr (st(lid \<mapsto> r')))))"

definition RegistryService_withdraw ::
  "store \<Rightarrow> string \<Rightarrow> pydict option \<Rightarrow> string \<Rightarrow> real \<Rightarrow> error + store" where
  "RegistryService_withdraw st lid data user_sub now =
     (case RegistryService_get_any st lid of
        Inl e \<Rightarrow> Inl e
      | Inr record \<Rightarrow>
          (let issuer = dict_get (metadata record) ''issuer'' in
           if truthy issuer \<and> issuer \<noteq> PStr user_sub then Inl UnauthorizedError
           else Inr (st(lid \<mapsto> record\<lparr>withdrawn :=
                   Some (Tombstone_init
                          (dict_get (case data of None \<Rightarrow> [] | Some d \<Rightarrow> d) ''reason'')
                          None now)\<rparr>))))"

definition RegistryService_resolve :: "store \<Rightarrow> string \<Rightarrow> error + (pyval \<times> RegistryRecord)" where
  "RegistryService_resolve st lid =
     (case RegistryService_get st lid of
        Inl e \<Rightarrow> Inl e
      | Inr record \<Rightarrow> Inr (target_uri record, record))"

text \<open>
  Sequences of registry calls. A call that raises leaves the store as it was: in each
  method every \<^verbatim>\<open>raise\<close> precedes the first assignment. The three readers assign nothing.
\<close>

datatype registry_call =
    Create pydict pyval string real
  | Update string pydict string real
  | Withdraw string "pydict option" string real
  | Get string
  | GetAny string
  | Resolve string

fun step :: "store \<Rightarrow> registry_call \<Rightarrow> store" where
  "step st (Create payload issuer lid now) =
     (case RegistryService_create st payload issuer lid now of
        Inl e \<Rightarrow> st | Inr (st', record) \<Rightarrow> st')"
| "step st (Update lid updates user_sub now) =
     (case RegistryService_update st lid updates user_sub now of
        Inl e \<Rightarrow> st | Inr st' \<Rightarrow> st')"
| "step st (Withdraw lid data user_sub now) =
     (case RegistryService_withdraw st lid data user_sub now of
        Inl e \<Rightarrow> st | Inr st' \<Rightarrow> st')"
| "step st (Get lid) = st"
| "step st (GetAny lid) = st"
| "step st (Resolve lid) = st"

fun run :: "store \<Rightarrow> registry_call list \<Rightarrow> store" where
  "run st [] = st"
| "run st (c # cs) = run (step st c) cs"

text \<open>
  \<open>never_reissues i cs\<close>: no \<open>Create\<close> among the calls draws the identifier \<open>i\<close> again (what
  the 122 random bits of \<^verbatim>\<open>uuid4\<close> are relied on for). \<open>no_withdraw i cs\<close>: no call withdraws
  \<open>i\<close>.
\<close>

fun never_reissues :: "string \<Rightarrow> registry_call list \<Rightarrow> bool" where
  "never_reissues i [] = True"
| "never_reissues i (Create payload issuer lid now # cs) = (lid \<noteq> i \<and> never_reissues i cs)"
| "never_reissues i (c # cs) = never_reissues i cs"

fun no_withdraw :: "string \<Rightarrow> registry_call list \<Rightarrow> bool" where
  "no_withdraw i [] = True"
| "no_withdraw i (Withdraw lid data user_sub now # cs) = (lid \<noteq> i \<and> no_withdraw i cs)"
| "no_withdraw i (c # cs) = no_withdraw i cs"

text \<open>
  \<open>supplies_field updates\<close>: the condition under which \<^verbatim>\<open>update\<close> sets \<^verbatim>\<open>changed\<close>, read
  off its four tests.
\<close>

definition supplies_field :: "pydict \<Rightarrow> bool" where
  "supplies_field updates =
     (dict_in ''target_uri'' updates \<or> dict_in ''targetUri'' updates
      \<or> dict_in ''media_type'' updates \<or> dict_in ''mediaType'' updates
      \<or> dict_in ''language'' updates
      \<or> (dict_in ''metadata'' updates \<and> is_dict (dict_get updates ''metadata'')))"

section \<open>The resolver (services/resolver\_service.py)\<close>

text \<open>\<^verbatim>\<open>str(n)\<close> of an integer, for the f-string of the validator.\<close>

function str_nat :: "nat \<Rightarrow> string" where
  "str_nat n =
     (if n < 10 then [''0123456789'' ! n]
      else str_nat (n div 10) @ [''0123456789'' ! (n mod 10)])"
  by pat_completeness auto
termination
  by (relation "measure (\<lambda>n. n)") auto

declare str_nat.simps [simp del]

definition str_int :: "int \<Rightarrow> string" where
  "str_int i = (if i < 0 then ''-'' @ str_nat (nat (- i)) else str_nat (nat i))"

text \<open>\<^verbatim>\<open>int(x)\<close> of a float: truncation toward zero.\<close>

definition py_int :: "real \<Rightarrow> int" where
  "py_int x = (if 0 \<le> x then \<lfloor>x\<rfloor> else \<lceil>x\<rceil>)"

record ResolutionRequest =
  format :: "string option"
  req_language :: "string option"
  req_version :: "int option"
  timestamp :: "string option"
  accept_header :: "string option"
  accept_language :: "string option"
  prefer_redirect :: bool

record ResolutionResult =
  rtype :: string
  uri :: pyval
  permanent :: bool
  cache_ttl :: "int option"
  quality :: "real option"
  data :: "pydict option"
  etag :: "string option"

definition ResolverService_resolve ::
  "store \<Rightarrow> string \<Rightarrow> ResolutionRequest \<Rightarrow> error + ResolutionResult" where
  "ResolverService_resolve st linkid params =
     (case RegistryService_resolve st linkid of
        Inl e \<Rightarrow> Inl e
      | Inr (target, record) \<Rightarrow>
          if prefer_redirect params
          then Inr \<lparr>rtype = ''redirect'', uri = target, permanent = False,
                    cache_ttl = Some 300, quality = Some 1, data = None, etag = None\<rparr>
          else Inr \<lparr>rtype = ''metadata'', uri = PNone, permanent = False,
                    cache_ttl = Some 120, quality = None,
                    data = Some [(''id'', PStr (link_id record)),
                                 (''target'', target_uri record),
                                 (''mediaType'', media_type record),
                                 (''language'', language record),
                                 (''created'', PFloat (created record)),
                                 (''updated'', PFloat (updated record)),
                                 (''version'', PInt (version record)),
                                 (''metadata'', PDict (metadata record))],
                    etag = Some (''W/'' @ [CHR 0x22] @ str_int (version record) @ ''-''
                                 @ str_int (py_int (updated record)) @ [CHR 0x22])\<rparr>)"

definition ResolverService_register ::
  "store \<Rightarrow> pydict \<Rightarrow> string \<Rightarrow> real \<Rightarrow> error + (store \<times> (string \<times> real))" where
  "ResolverService_register st payload lid now =
     (let issuer = py_or (dict_get payload ''issuer'') (PStr ''unknown'') in
      case RegistryService_create st payload issuer lid now of
        Inl e \<Rightarrow> Inl e
      | Inr (st', record) \<Rightarrow> Inr (st', (link_id record, created record)))"

section \<open>Registration over HTTP (models.py, main.py)\<close>

text \<open>
  \<^verbatim>\<open>RegistrationRequest\<close> declares \<^verbatim>\<open>target_uri: str = Field(alias="targetUri")\<close>, required,
  with \<^verbatim>\<open>populate_by_name\<close>; the other three fields are optional. The check of a request
  body against these declarations is the framework's: a field is read under its alias,
  else under its name; a required field that is absent, or a value of another type than
  the declared one, refuses the body before the handler runs. No field has a format
  constraint.
\<close>

record RegistrationRequest =
  reg_target_uri :: string
  reg_media_type :: "string option"
  reg_language :: "string option"
  reg_metadata :: "pydict option"

definition field_lookup :: "pydict \<Rightarrow> string \<Rightarrow> string \<Rightarrow> pyval option" where
  "field_lookup body alias name =
     (case map_of body alias of Some v \<Rightarrow> Some v | None \<Rightarrow> map_of body name)"

fun optional_str :: "pyval option \<Rightarrow> string option option" where
  "optional_str None = Some None"
| "optional_str (Some PNone) = Some None"
| "optional_str (Some (PStr s)) = Some (Some s)"
| "optional_str (Some v) = None"

fun optional_dict :: "pyval option \<Rightarrow> pydict option option" where
  "optional_dict None = Some None"
| "optional_dict (Some PNone) = Some None"
| "optional_dict (Some (PDict d)) = Some (Some d)"
| "optional_dict (Some v) = None"

definition RegistrationRequest_validate :: "pydict \<Rightarrow> RegistrationRequest option" where
  "RegistrationRequest_validate body =
     (case field_lookup body ''targetUri'' ''target_uri'' of
        Some (PStr t) \<Rightarrow>
          (case (optional_str (field_lookup body ''mediaType'' ''media_type''),
                 optional_str (map_of body ''language''),
                 optional_dict (map_of body ''metadata'')) of
             (Some mt, Some lang, Some md) \<Rightarrow>
               Some \<lparr>reg_target_uri = t, reg_media_type = mt, reg_language = lang,
                      reg_metadata = md\<rparr>
           | _ \<Rightarrow> None)
      | _ \<Rightarrow> None)"

record User =
  sub :: string
  scopes :: "string list"

definition has_scope :: "User \<Rightarrow> string \<Rightarrow> bool" where
  "has_scope user scope = (scope \<in> set (scopes user))"

datatype http_error = RequestValidationError | HTTPException int string

definition of_optional_str :: "string option \<Rightarrow> pyval" where
  "of_optional_str x = (case x of None \<Rightarrow> PNone | Some s \<Rightarrow> PStr s)"

text \<open>
  \<^verbatim>\<open>register_linkid\<close>, the handler of \<^verbatim>\<open>POST /register\<close>: \<open>body\<close> is the JSON object of the
  request, \<open>user\<close> what \<^verbatim>\<open>get_current_user\<close> made of the credentials.
\<close>

definition register_linkid ::
  "store \<Rightarrow> pydict \<Rightarrow> User option \<Rightarrow> string \<Rightarrow> real \<Rightarrow> http_error + (store \<times> pydict)" where
  "register_linkid st body user lid now =
     (case RegistrationRequest_validate body of
        None \<Rightarrow> Inl RequestValidationError
      | Some registration \<Rightarrow>
          (case user of
             None \<Rightarrow> Inl (HTTPException 401 ''Authentication required'')
           | Some u \<Rightarrow>
               if \<not> has_scope u ''write''
               then Inl (HTTPException 403 ''Write permission required'')
               else (case ResolverService_register st
                            [(''target_uri'', PStr (reg_target_uri registration)),
                             (''media_type'', of_optional_str (reg_media_type registration)),
                             (''language'', of_optional_str (reg_language registration)),
                             (''metadata'', (case reg_metadata registration of
                                               None \<Rightarrow> PNone | Some d \<Rightarrow> PDict d)),
                             (''issuer'', PStr (sub u))] lid now of
                       Inl e \<Rightarrow> Inl (HTTPException 500 ''Registration failed'')
                     | Inr (st', (rid, rcreated)) \<Rightarrow>
                         Inr (st', [(''id'', PStr rid),
                                    (''uri'', PStr (''https://w3id.org/linkid/'' @ rid)),
                                    (''created'', PFloat rcreated)]))))"

section \<open>The two caches (services/cache\_service.py, sdk/python/client.py)\<close>

text \<open>
  Both stores map a key to the pair \<^verbatim>\<open>(value, expires_at)\<close>. \<^verbatim>\<open>if not entry\<close> tests a pair,
  which is never falsy, so the test is on the presence of the key alone. A hit is
  \<open>Some value\<close>, a miss \<open>None\<close>; each function returns the store it leaves.

  Clock readings and expiry times are floats, read as the real numbers they denote. The
  two \<^verbatim>\<open>set\<close> methods compute \<^verbatim>\<open>time.time() + float(ttl)\<close> in Python's float arithmetic, which
  is a parameter here: \<open>to_float\<close> is \<^verbatim>\<open>float(n)\<close> of an integer, \<open>None\<close> when it raises
  \<^verbatim>\<open>OverflowError\<close> (an integer too large for a float), and \<open>fadd\<close> is the sum of two floats,
  which is rounded. (The sum of a clock reading and a converted TTL stays below the float
  infinity, which the reals do not have.)
\<close>

record float_arith =
  to_float :: "int \<Rightarrow> real option"
  fadd :: "real \<Rightarrow> real \<Rightarrow> real"

datatype cache_error = StopIteration | OverflowError

type_synonym 'v cache_store = "(string \<times> ('v \<times> real)) list"

definition CacheService_get ::
  "'v cache_store \<Rightarrow> string \<Rightarrow> real \<Rightarrow> 'v option \<times> 'v cache_store" where
  "CacheService_get st key now =
     (case map_of st key of
        None \<Rightarrow> (None, st)
      | Some (v, expires_at) \<Rightarrow>
          if expires_at < now then (None, dict_pop key st) else (Some v, st))"

text \<open>
  \<^verbatim>\<open>CacheService.set\<close>: the right-hand side is evaluated before the assignment, so a
  conversion that raises leaves the store as it was. The result is the exception raised,
  if any, and the store left.
\<close>

definition CacheService_set ::
  "float_arith \<Rightarrow> 'v cache_store \<Rightarrow> string \<Rightarrow> 'v \<Rightarrow> int \<Rightarrow> real
     \<Rightarrow> cache_error option \<times> 'v cache_store" where
  "CacheService_set fl st key v ttl now =
     (case to_float fl ttl of
        None \<Rightarrow> (Some OverflowError, st)
      | Some f \<Rightarrow> (None, dict_set key (v, fadd fl now f) st))"

definition CacheService_clear :: "'v cache_store \<Rightarrow> 'v cache_store" where
  "CacheService_clear st = []"

record 'v TTLCache =
  max_size :: int
  default_ttl :: int
  ttl_store :: "'v cache_store"

definition TTLCache_init :: "int \<Rightarrow> int \<Rightarrow> 'v TTLCache" where
  "TTLCache_init msize ttl = \<lparr>max_size = msize, default_ttl = ttl, ttl_store = []\<rparr>"

definition TTLCache_get ::
  "'v TTLCache \<Rightarrow> string \<Rightarrow> real \<Rightarrow> 'v option \<times> 'v TTLCache" where
  "TTLCache_get c key now =
     (case map_of (ttl_store c) key of
        None \<Rightarrow> (None, c)
      | Some (v, expires_at) \<Rightarrow>
          if expires_at < now then (None, c\<lparr>ttl_store := dict_pop key (ttl_store c)\<rparr>)
          else (Some v, c))"

text \<open>
  \<^verbatim>\<open>TTLCache.set\<close>, statement by statement. At capacity the first key in insertion order is
  popped; \<^verbatim>\<open>next(iter(self._store))\<close> on an empty store raises \<^verbatim>\<open>StopIteration\<close> (a capacity
  of zero or less). Then the expiry is computed, and a conversion that raises leaves the
  cache as the eviction left it. Then the entry is stored. The result is the exception
  raised, if any, and the cache left.
\<close>

definition TTLCache_set ::
  "float_arith \<Rightarrow> 'v TTLCache \<Rightarrow> string \<Rightarrow> 'v \<Rightarrow> int option \<Rightarrow> real
     \<Rightarrow> cache_error option \<times> 'v TTLCache" where
  "TTLCache_set fl c key v ttl now =
     (case (if int (length (ttl_store c)) \<ge> max_size c
            then (case ttl_store c of
                    [] \<Rightarrow> None
                  | (k0, e0) # rest \<Rightarrow> Some (c\<lparr>ttl_store := dict_pop k0 (ttl_store c)\<rparr>))
            else Some c) of
        None \<Rightarrow> (Some StopIteration, c)
      | Some c1 \<Rightarrow>
          (case to_float fl (case ttl of Some t \<Rightarrow> t | None \<Rightarrow> default_ttl c) of
             None \<Rightarrow> (Some OverflowError, c1)
           | Some f \<Rightarrow>
               (None, c1\<lparr>ttl_store := dict_set key (v, fadd fl now f) (ttl_store c1)\<rparr>)))"

definition TTLCache_clear :: "'v TTLCache \<Rightarrow> 'v TTLCache" where
  "TTLCache_clear c = c\<lparr>ttl_store := []\<rparr>"

section \<open>The client's transport (sdk/python/client.py)\<close>

datatype client_resolution =
    RedirectResolution string string string bool "real option"
  | MetadataResolution string pydict string bool

record LinkIDClient =
  resolver_url :: string
  api_key :: "string option"
  timeout :: real
  retries :: int
  caching :: bool
  cache :: "client_resolution TTLCache"
  default_headers :: "(string \<times> string) list"

definition rstrip :: "char \<Rightarrow> string \<Rightarrow> string" where
  "rstrip ch s = rev (dropWhile (\<lambda>x. x = ch) (rev s))"

definition LinkIDClient_init ::
  "string \<Rightarrow> string option \<Rightarrow> real \<Rightarrow> int \<Rightarrow> bool \<Rightarrow> int \<Rightarrow> (string \<times> string) list \<Rightarrow> LinkIDClient" where
  "LinkIDClient_init url key tmo n cach ttl hdrs =
     \<lparr>resolver_url = rstrip CHR ''/'' url, api_key = key, timeout = tmo, retries = max 1 n,
      caching = cach, cache = TTLCache_init 1024 ttl, default_headers = hdrs\<rparr>"

record Response =
  status_code :: int
  headers :: "(string \<times> string) list"
  body_text :: string

text \<open>
  What one call of \<^verbatim>\<open>self.session.request\<close> does: it returns a response, or raises
  \<^verbatim>\<open>Timeout\<close>, or another \<^verbatim>\<open>RequestException\<close>, or an exception outside that class, which no
  \<^verbatim>\<open>except\<close> clause of \<^verbatim>\<open>_send_request\<close> catches. The string is \<^verbatim>\<open>str(exc)\<close>. The network is
  the function \<open>session\<close>: the outcome of the call made in attempt \<open>k\<close>.

  \<^verbatim>\<open>RequestException\<close> is the base class of the exceptions of the \<^verbatim>\<open>requests\<close> library, which
  is not part of the repository. \<open>request_exception\<close> names classes below it other than
  \<^verbatim>\<open>Timeout\<close>: the connection error, and classes the library raises before or without any
  connection, such as \<^verbatim>\<open>MissingSchema\<close> for a URL without \<^verbatim>\<open>http://\<close>.
\<close>

datatype request_exception =
    ConnectionError
  | MissingSchema
  | InvalidSchema
  | InvalidURL
  | InvalidHeader
  | TooManyRedirects
  | ChunkedEncodingError
  | ContentDecodingError

datatype outcome =
    Returned Response
  | Raised_Timeout string
  | Raised_RequestException request_exception string
  | Raised_other string

datatype client_error = NetworkError string | Uncaught string

record transport_trace =
  calls :: nat
  sleeps :: "int list"

fun send_attempts ::
  "(int \<Rightarrow> outcome) \<Rightarrow> string \<Rightarrow> int \<Rightarrow> int list \<Rightarrow> string option \<Rightarrow> transport_trace
     \<Rightarrow> (client_error + Response) \<times> transport_trace" where
  "send_attempts session url n [] last_error tr =
     (Inl (NetworkError (''Request to '' @ url @ '' failed: ''
             @ (case last_error of None \<Rightarrow> ''None'' | Some e \<Rightarrow> e))), tr)"
| "send_attempts session url n (attempt # rest) last_error tr =
     (let tr1 = tr\<lparr>calls := calls tr + 1\<rparr>;
          tr2 = (if attempt < n then tr1\<lparr>sleeps := sleeps tr1 @ [2 ^ nat (attempt - 1)]\<rparr>
                 else tr1)
      in case session attempt of
           Returned response \<Rightarrow> (Inr response, tr1)
         | Raised_Timeout e \<Rightarrow> send_attempts session url n rest (Some e) tr2
         | Raised_RequestException cls e \<Rightarrow> send_attempts session url n rest (Some e) tr2
         | Raised_other e \<Rightarrow> (Inl (Uncaught e), tr1))"

definition LinkIDClient_send_request ::
  "LinkIDClient \<Rightarrow> (int \<Rightarrow> outcome) \<Rightarrow> string \<Rightarrow> (client_error + Response) \<times> transport_trace" where
  "LinkIDClient_send_request client session url =
     send_attempts session url (retries client) [1..retries client] None
       \<lparr>calls = 0, sleeps = []\<rparr>"

text \<open>The failures the loop retries: the two \<^verbatim>\<open>except\<close> clauses.\<close>

fun retried :: "outcome \<Rightarrow> bool" where
  "retried (Raised_Timeout e) = True"
| "retried (Raised_RequestException cls e) = True"
| "retried x = False"

text \<open>The failures that are a timeout or a failure of the connection.\<close>

fun connection_or_timeout :: "outcome \<Rightarrow> bool" where
  "connection_or_timeout (Raised_Timeout e) = True"
| "connection_or_timeout (Raised_RequestException ConnectionError e) = True"
| "connection_or_timeout x = False"

fun exc_str :: "outcome \<Rightarrow> string" where
  "exc_str (Raised_Timeout e) = e"
| "exc_str (Raised_RequestException cls e) = e"
| "exc_str (Raised_other e) = e"
| "exc_str (Returned r) = []"

section \<open>Auxiliary notions and concrete inputs\<close>

text \<open>The tombstone stored for an identifier, if any.\<close>

definition tombstone_of :: "store \<Rightarrow> string \<Rightarrow> Tombstone option" where
  "tombstone_of st i = (case st i of None \<Rightarrow> None | Some record \<Rightarrow> withdrawn record)"

text \<open>The metadata dictionary a payload carries (\<^verbatim>\<open>payload.get("metadata") or {}\<close>).\<close>

definition payload_metadata :: "pydict \<Rightarrow> pydict" where
  "payload_metadata payload = (case dict_get payload ''metadata'' of PDict md \<Rightarrow> md | _ \<Rightarrow> [])"

definition ex_id :: string where
  "ex_id = ''0123456789ABCDEF0123456789ABCDEF''"

definition ex_payload :: pydict where
  "ex_payload = [(''targetUri'', PStr ''https://example.org/resource''),
                 (''language'', PStr ''en'')]"

definition ex_record :: RegistryRecord where
  "ex_record = \<lparr>link_id = ex_id, target_uri = PStr ''https://example.org/resource'',
                 media_type = PNone, language = PStr ''en'',
                 metadata = [(''issuer'', PStr ''alice'')],
                 created = 1, updated = 1, version = 1, withdrawn = None\<rparr>"

definition ex_store :: store where
  "ex_store = Map.empty(ex_id \<mapsto> ex_record)"

definition ex_tombstone :: Tombstone where
  "ex_tombstone = \<lparr>reason = PStr ''owner request'', at_time = 2\<rparr>"

definition ex_withdrawn_record :: RegistryRecord where
  "ex_withdrawn_record = ex_record\<lparr>withdrawn := Some ex_tombstone\<rparr>"

definition ex_withdrawn_store :: store where
  "ex_withdrawn_store = Map.empty(ex_id \<mapsto> ex_withdrawn_record)"

definition ex_forged_payload :: pydict where
  "ex_forged_payload = [(''targetUri'', PStr ''https://example.org/resource''),
                        (''metadata'', PDict [(''issuer'', PStr ''mallory'')])]"

definition ex_forged_record :: RegistryRecord where
  "ex_forged_record = ex_record\<lparr>language := PNone, metadata := [(''issuer'', PStr ''mallory'')]\<rparr>"

definition ex_unowned_payload :: pydict where
  "ex_unowned_payload = [(''targetUri'', PStr ''https://example.org/resource''),
                         (''metadata'', PDict [(''issuer'', PStr [])])]"

definition ex_unowned_record :: RegistryRecord where
  "ex_unowned_record = ex_record\<lparr>language := PNone, metadata := [(''issuer'', PStr [])]\<rparr>"

definition ex_other_id :: string where
  "ex_other_id = ''FEDCBA9876543210FEDCBA9876543210''"

definition ex_calls :: "registry_call list" where
  "ex_calls = [Resolve ex_id,
               Update ex_id [(''targetUri'', PStr ''https://example.org/new'')] ''alice'' 3,
               Get ex_id,
               Create ex_payload (PStr ''bob'') ex_other_id 4,
               Resolve ex_id]"

definition ex_user :: User where
  "ex_user = \<lparr>sub = ''demo-user'', scopes = [''read'', ''write'']\<rparr>"

definition ex_relative_record :: RegistryRecord where
  "ex_relative_record = \<lparr>link_id = ex_id, target_uri = PStr ''resource/1'',
                 media_type = PNone, language = PNone,
                 metadata = [(''issuer'', PStr ''demo-user'')],
                 created = 1, updated = 1, version = 1, withdrawn = None\<rparr>"

definition ex_redirect_request :: ResolutionRequest where
  "ex_redirect_request = \<lparr>format = None, req_language = None, req_version = None,
      timestamp = None, accept_header = Some ''*/*'', accept_language = None,
      prefer_redirect = True\<rparr>"

definition ex_metadata_request :: ResolutionRequest where
  "ex_metadata_request = ex_redirect_request\<lparr>prefer_redirect := False\<rparr>"

definition ex_updated_record :: RegistryRecord where
  "ex_updated_record = ex_record\<lparr>target_uri := PStr ''https://example.org/new'',
                                  updated := 1700000000.75, version := 2\<rparr>"

definition ex_cache :: "string cache_store" where
  "ex_cache = [(''k'', (''v'', 1300))]"

definition ex_cache2 :: "string cache_store" where
  "ex_cache2 = [(''j'', (''u'', 5000)), (''k'', (''v'', 1300))]"

definition ex_ttl_cache :: "string TTLCache" where
  "ex_ttl_cache = \<lparr>max_size = 1024, default_ttl = 3600, ttl_store = ex_cache\<rparr>"

definition ex_response :: Response where
  "ex_response = \<lparr>status_code = 404, headers = [], body_text = ''{}''\<rparr>"

definition ex_session :: "int \<Rightarrow> outcome" where
  "ex_session k = (if k = 1 then Raised_Timeout ''timed out''
                   else if k = 2 then Raised_RequestException ConnectionError ''connection refused''
                   else Returned ex_response)"

definition ex_dead_session :: "int \<Rightarrow> outcome" where
  "ex_dead_session k = (if k = 3 then Raised_RequestException ConnectionError ''connection refused''
                        else Raised_Timeout ''timed out'')"

text \<open>A client configured with a resolver URL that lacks the scheme: every call raises
  \<^verbatim>\<open>MissingSchema\<close> before anything is sent.\<close>

definition ex_schemeless_client :: LinkIDClient where
  "ex_schemeless_client = LinkIDClient_init ''resolver.linkid.org'' (Some ''demo'') 10 3 True 3600 []"

definition ex_schemeless_session :: "int \<Rightarrow> outcome" where
  "ex_schemeless_session k = Raised_RequestException MissingSchema ''No scheme supplied''"

text \<open>
  A float arithmetic for the examples. It converts and adds without rounding, which is
  what floats do on the integers below \<open>2 ^ 53\<close> used in the examples, and it refuses the
  integers from \<open>2 ^ 1024\<close> on. The general facts about the caches hold for every float
  arithmetic; this one only supplies concrete inputs.
\<close>

definition ex_floats :: float_arith where
  "ex_floats = \<lparr>to_float = (\<lambda>n. if \<bar>n\<bar> < 2 ^ 1024 then Some (real_of_int n) else None),
                 fadd = (\<lambda>x y. x + y)\<rparr>"

definition ex_merged_record :: RegistryRecord where
  "ex_merged_record = \<lparr>link_id = ex_id, target_uri = PStr ''https://example.org/new'',
                 media_type = PStr ''text/html'', language = PStr ''fr'',
                 metadata = [(''issuer'', PStr ''alice''), (''note'', PStr ''moved'')],
                 created = 1, updated = 3, version = 2, withdrawn = Some ex_tombstone\<rparr>"

definition ex_updates :: pydict where
  "ex_updates = [(''targetUri'', PStr ''https://example.org/new''),
                 (''mediaType'', PStr ''text/html''),
                 (''language'', PStr ''fr''),
                 (''metadata'', PDict [(''note'', PStr ''moved''),
                                       (''issuer'', PStr ''alice'')])]"

definition ex_client :: LinkIDClient where
  "ex_client = LinkIDClient_init ''http://localhost:8080/'' (Some ''demo'') 10 3 True 3600 []"

text \<open>The pause after a failed attempt that is not the last: \<^verbatim>\<open>2 ** (attempt - 1)\<close>.\<close>

definition backoff :: "int \<Rightarrow> int" where
  "backoff attempt = 2 ^ nat (attempt - 1)"

section \<open>Facts about the registry\<close>

lemma map_of_dict_set: "map_of (dict_set k v d) k' = (if k' = k then Some v else map_of d k')"
  by (induction d) auto

lemma map_of_dict_pop: "map_of (dict_pop k d) k' = (if k' = k then None else map_of d k')"
  by (induction d) (auto simp: dict_pop_def)

lemmas registry_eval =
  RegistryService_create_def RegistryService_update_def RegistryService_withdraw_def
  RegistryService_get_def RegistryService_get_any_def RegistryService_resolve_def
  apply_updates_def Tombstone_init_def tombstone_of_def
  dict_get_def dict_in_def dict_setdefault_def dict_update_def py_or_def Let_def
  ex_store_def ex_record_def ex_payload_def
  ex_tombstone_def ex_withdrawn_record_def ex_withdrawn_store_def
  ex_forged_payload_def ex_forged_record_def ex_unowned_payload_def ex_unowned_record_def

lemma ex_create:
  "RegistryService_create Map.empty ex_payload (PStr ''alice'') ex_id 1 = Inr (ex_store, ex_record)"
  by (simp add: registry_eval)

lemma apply_updates_changed: "snd (apply_updates r upd) = supplies_field upd"
  by (simp add: apply_updates_def supplies_field_def Let_def split_def)

lemma apply_updates_noop: "\<not> supplies_field upd \<Longrightarrow> fst (apply_updates r upd) = r"
  by (auto simp add: apply_updates_def supplies_field_def Let_def split_def)

lemma apply_updates_frame:
  "version (fst (apply_updates r upd)) = version r"
  "withdrawn (fst (apply_updates r upd)) = withdrawn r"
  "updated (fst (apply_updates r upd)) = updated r"
  "created (fst (apply_updates r upd)) = created r"
  "link_id (fst (apply_updates r upd)) = link_id r"
  by (simp_all add: apply_updates_def Let_def split_def)

lemma apply_updates_fields:
  "dict_in ''target_uri'' upd \<or> dict_in ''targetUri'' upd \<Longrightarrow>
     target_uri (fst (apply_updates r upd))
       = py_or (dict_get upd ''target_uri'') (dict_get upd ''targetUri'')"
  "dict_in ''media_type'' upd \<or> dict_in ''mediaType'' upd \<Longrightarrow>
     media_type (fst (apply_updates r upd))
       = py_or (dict_get upd ''media_type'') (dict_get upd ''mediaType'')"
  "dict_in ''language'' upd \<Longrightarrow> language (fst (apply_updates r upd)) = dict_get upd ''language''"
  "dict_in ''metadata'' upd \<and> is_dict (dict_get upd ''metadata'') \<Longrightarrow>
     metadata (fst (apply_updates r upd))
       = dict_update (metadata r) (the_dict (dict_get upd ''metadata''))"
  by (simp_all add: apply_updates_def Let_def split_def)

text \<open>What \<^verbatim>\<open>update\<close> returns once the ownership check lets the caller through.\<close>

lemma update_result:
  assumes "st i = Some r"
    and "\<not> (truthy (dict_get (metadata r) ''issuer'') \<and> dict_get (metadata r) ''issuer'' \<noteq> PStr u)"
  shows "RegistryService_update st i upd u now =
           Inr (st(i \<mapsto> (if supplies_field upd
                          then (fst (apply_updates r upd))\<lparr>version := version r + 1, updated := now\<rparr>
                          else r)))"
proof -
  obtain r1 ch where a: "apply_updates r upd = (r1, ch)" by (cases "apply_updates r upd")
  have ch: "ch = supplies_field upd" using apply_updates_changed[of r upd] a by simp
  have v: "version r1 = version r" using apply_updates_frame(1)[of r upd] a by simp
  have n: "\<not> supplies_field upd \<Longrightarrow> r1 = r" using apply_updates_noop[of upd r] a by simp
  show ?thesis using assms a ch v n
    by (auto simp: RegistryService_update_def RegistryService_get_any_def Let_def)
qed

lemma update_authorized:
  assumes "st i = Some r" and "RegistryService_update st i upd u now = Inr st'"
  shows "\<not> (truthy (dict_get (metadata r) ''issuer'') \<and> dict_get (metadata r) ''issuer'' \<noteq> PStr u)"
  using assms
  by (auto simp: RegistryService_update_def RegistryService_get_any_def Let_def split: if_splits)

subsection \<open>C1: when update bumps the version\<close>

text \<open>
  C1, as the code has it. \<^verbatim>\<open>RegistryService.update\<close> never compares a supplied value with the
  stored one: it sets \<^verbatim>\<open>changed\<close> when a recognised key is present
  (\<^verbatim>\<open>target_uri\<close>/\<^verbatim>\<open>targetUri\<close>, \<^verbatim>\<open>media_type\<close>/\<^verbatim>\<open>mediaType\<close>, \<^verbatim>\<open>language\<close>, or \<^verbatim>\<open>metadata\<close> holding a
  dictionary). A successful update increments \<open>version\<close> by exactly 1 and sets \<open>updated\<close> to
  the clock iff the request supplies such a key; otherwise the record is left as it was.
\<close>

theorem update_bumps_iff_field_supplied:
  assumes "st i = Some r" and "RegistryService_update st i upd u now = Inr st'"
  shows "\<exists>r'. st' = st(i \<mapsto> r') \<and>
           (if supplies_field upd then version r' = version r + 1 \<and> updated r' = now
            else r' = r)"
  using update_result[of st i r u upd now] update_authorized[OF assms] assms by auto

theorem update_bumps_iff_field_supplied_witness:
  "ex_store ex_id = Some ex_record \<and>
   RegistryService_update ex_store ex_id [(''targetUri'', PStr ''https://example.org/new'')] ''alice'' 2
     = Inr (ex_store(ex_id \<mapsto> ex_record\<lparr>target_uri := PStr ''https://example.org/new'',
                                            version := 2, updated := 2\<rparr>)) \<and>
   (\<exists>r'. ex_store(ex_id \<mapsto> ex_record\<lparr>target_uri := PStr ''https://example.org/new'',
                                       version := 2, updated := 2\<rparr>) = ex_store(ex_id \<mapsto> r') \<and>
      (if supplies_field [(''targetUri'', PStr ''https://example.org/new'')]
       then version r' = version ex_record + 1 \<and> updated r' = 2 else r' = ex_record))"
proof -
  have h1: "ex_store ex_id = Some ex_record" by (simp add: ex_store_def)
  have h2: "RegistryService_update ex_store ex_id
              [(''targetUri'', PStr ''https://example.org/new'')] ''alice'' 2
     = Inr (ex_store(ex_id \<mapsto> ex_record\<lparr>target_uri := PStr ''https://example.org/new'',
                                            version := 2, updated := 2\<rparr>))"
    by (simp add: registry_eval)
  from h1 h2 update_bumps_iff_field_supplied[of ex_store ex_id ex_record
      "[(''targetUri'', PStr ''https://example.org/new'')]" "''alice''" 2]
  show ?thesis by blast
qed

text \<open>
  The claim as written fails: the record's language is \<^verbatim>\<open>"en"\<close>, the owner's update supplies
  \<^verbatim>\<open>{"language": "en"}\<close>, and the version goes from 1 to 2 and \<open>updated\<close> from 1 to 2.
\<close>

theorem noop_update_bumps_version:
  "language ex_record = PStr ''en'' \<and> version ex_record = 1 \<and> updated ex_record = 1 \<and>
   RegistryService_update ex_store ex_id [(''language'', PStr ''en'')] ''alice'' 2
     = Inr (ex_store(ex_id \<mapsto> ex_record\<lparr>version := 2, updated := 2\<rparr>))"
  by (simp add: registry_eval)

subsection \<open>C10: update of a withdrawn record\<close>

lemma apply_updates_unsupplied:
  "\<not> (dict_in ''target_uri'' upd \<or> dict_in ''targetUri'' upd) \<Longrightarrow>
     target_uri (fst (apply_updates r upd)) = target_uri r"
  "\<not> (dict_in ''media_type'' upd \<or> dict_in ''mediaType'' upd) \<Longrightarrow>
     media_type (fst (apply_updates r upd)) = media_type r"
  "\<not> dict_in ''language'' upd \<Longrightarrow> language (fst (apply_updates r upd)) = language r"
  "\<not> (dict_in ''metadata'' upd \<and> is_dict (dict_get upd ''metadata'')) \<Longrightarrow>
     metadata (fst (apply_updates r upd)) = metadata r"
  by (auto simp add: apply_updates_def Let_def split_def)

text \<open>
  \<^verbatim>\<open>d.update(other)\<close>, entry by entry: a key of \<open>other\<close> gets the value \<open>other\<close> gives it, every
  other key keeps its value. (In a list of pairs that repeats a key the last pair counts;
  the keys of a dictionary are distinct.)
\<close>

lemma map_of_dict_update:
  "map_of (dict_update d other) k
     = (case map_of (rev other) k of Some v \<Rightarrow> Some v | None \<Rightarrow> map_of d k)"
  unfolding dict_update_def
proof (induction other arbitrary: d)
  case Nil
  then show ?case by simp
next
  case (Cons p other)
  obtain k1 v1 where p: "p = (k1, v1)" by (cases p)
  show ?case
    using Cons.IH[of "dict_set k1 v1 d"]
    by (simp add: p map_of_dict_set map_add_def split: option.splits)
qed

lemma map_of_rev_distinct: "distinct (map fst xs) \<Longrightarrow> map_of (rev xs) = map_of xs"
proof -
  assume d: "distinct (map fst xs)"
  then have "distinct (map fst (rev xs))" by (simp add: rev_map[symmetric])
  then show ?thesis using d map_of_inject_set[of "rev xs" xs] by simp
qed

lemma dict_get_dict_update:
  "distinct (map fst other) \<Longrightarrow>
   dict_get (dict_update d other) k = (if dict_in k other then dict_get other k else dict_get d k)"
proof -
  assume d: "distinct (map fst other)"
  have r: "map_of (rev other) k = map_of other k" using map_of_rev_distinct[OF d] by simp
  show ?thesis
    by (cases "map_of other k") (simp_all add: dict_get_def dict_in_def map_of_dict_update r)
qed

lemma dict_in_dict_update:
  "dict_in k (dict_update d other) = (dict_in k other \<or> dict_in k d)"
proof -
  have "dict_in k (rev other) = dict_in k other"
    by (simp add: dict_in_def map_of_eq_None_iff)
  then show ?thesis
    by (auto simp add: dict_in_def map_of_dict_update split: option.splits)
qed

text \<open>
  C10. \<^verbatim>\<open>update\<close> looks the record up with \<^verbatim>\<open>get_any\<close>, which does not look at the
  tombstone. On a withdrawn record, called with the identity stored as issuer, it returns
  normally: it never raises the withdrawn error, every supplied field is written, the
  version is incremented (and \<open>updated\<close> set) when a recognised field is supplied, and the
  tombstone stays. Written means: the target, media type and language become the supplied
  values; under every key of a supplied metadata dictionary the metadata hold the supplied
  value, and under every other key the value they held; a field that is not supplied, the
  identifier and the creation time stay as they were.
\<close>

theorem update_of_withdrawn_record_applies:
  assumes "st i = Some r" and "withdrawn r = Some t"
    and "dict_get (metadata r) ''issuer'' = PStr u"
  shows "\<exists>r'. RegistryService_update st i upd u now = Inr (st(i \<mapsto> r')) \<and>
           withdrawn r' = Some t \<and>
           (\<forall>j d. RegistryService_update st i upd u now \<noteq> Inl (LinkIdWithdrawnError j d)) \<and>
           (supplies_field upd \<longrightarrow> version r' = version r + 1 \<and> updated r' = now) \<and>
           (dict_in ''target_uri'' upd \<or> dict_in ''targetUri'' upd \<longrightarrow>
              target_uri r' = py_or (dict_get upd ''target_uri'') (dict_get upd ''targetUri'')) \<and>
           (dict_in ''media_type'' upd \<or> dict_in ''mediaType'' upd \<longrightarrow>
              media_type r' = py_or (dict_get upd ''media_type'') (dict_get upd ''mediaType'')) \<and>
           (dict_in ''language'' upd \<longrightarrow> language r' = dict_get upd ''language'') \<and>
           (dict_in ''metadata'' upd \<and> is_dict (dict_get upd ''metadata'') \<longrightarrow>
              metadata r' = dict_update (metadata r) (the_dict (dict_get upd ''metadata''))) \<and>
           (\<forall>m. dict_in ''metadata'' upd \<and> dict_get upd ''metadata'' = PDict m \<longrightarrow>
              (\<forall>k. map_of (metadata r') k
                     = (case map_of (rev m) k of Some v \<Rightarrow> Some v | None \<Rightarrow> map_of (metadata r) k)) \<and>
              (distinct (map fst m) \<longrightarrow>
                 (\<forall>k. dict_in k (metadata r') = (dict_in k m \<or> dict_in k (metadata r))) \<and>
                 (\<forall>k. dict_get (metadata r') k
                        = (if dict_in k m then dict_get m k else dict_get (metadata r) k)))) \<and>
           (\<not> supplies_field upd \<longrightarrow> r' = r) \<and>
           (\<not> (dict_in ''target_uri'' upd \<or> dict_in ''targetUri'' upd) \<longrightarrow>
              target_uri r' = target_uri r) \<and>
           (\<not> (dict_in ''media_type'' upd \<or> dict_in ''mediaType'' upd) \<longrightarrow>
              media_type r' = media_type r) \<and>
           (\<not> dict_in ''language'' upd \<longrightarrow> language r' = language r) \<and>
           (\<not> (dict_in ''metadata'' upd \<and> is_dict (dict_get upd ''metadata'')) \<longrightarrow>
              metadata r' = metadata r) \<and>
           link_id r' = link_id r \<and> created r' = created r"
proof -
  let ?r' = "if supplies_field upd
             then (fst (apply_updates r upd))\<lparr>version := version r + 1, updated := now\<rparr> else r"
  have res: "RegistryService_update st i upd u now = Inr (st(i \<mapsto> ?r'))"
    using update_result[of st i r u upd now] assms by simp
  have w: "withdrawn ?r' = Some t"
    using assms(2) by (simp add: apply_updates_frame)
  have nw: "\<forall>j d. RegistryService_update st i upd u now \<noteq> Inl (LinkIdWithdrawnError j d)"
    by (simp add: res)
  have s: "supplies_field upd \<longrightarrow> version ?r' = version r + 1 \<and> updated ?r' = now"
    by simp
  have f1: "dict_in ''target_uri'' upd \<or> dict_in ''targetUri'' upd \<longrightarrow>
              target_uri ?r' = py_or (dict_get upd ''target_uri'') (dict_get upd ''targetUri'')"
    by (auto simp add: apply_updates_fields supplies_field_def)
  have f2: "dict_in ''media_type'' upd \<or> dict_in ''mediaType'' upd \<longrightarrow>
              media_type ?r' = py_or (dict_get upd ''media_type'') (dict_get upd ''mediaType'')"
    by (auto simp add: apply_updates_fields supplies_field_def)
  have f3: "dict_in ''language'' upd \<longrightarrow> language ?r' = dict_get upd ''language''"
    by (auto simp add: apply_updates_fields supplies_field_def)
  have f4: "dict_in ''metadata'' upd \<and> is_dict (dict_get upd ''metadata'') \<longrightarrow>
              metadata ?r' = dict_update (metadata r) (the_dict (dict_get upd ''metadata''))"
    by (auto simp add: apply_updates_fields supplies_field_def)
  have f5: "\<forall>m. dict_in ''metadata'' upd \<and> dict_get upd ''metadata'' = PDict m \<longrightarrow>
              (\<forall>k. map_of (metadata ?r') k
                     = (case map_of (rev m) k of Some v \<Rightarrow> Some v | None \<Rightarrow> map_of (metadata r) k)) \<and>
              (distinct (map fst m) \<longrightarrow>
                 (\<forall>k. dict_in k (metadata ?r') = (dict_in k m \<or> dict_in k (metadata r))) \<and>
                 (\<forall>k. dict_get (metadata ?r') k
                        = (if dict_in k m then dict_get m k else dict_get (metadata r) k)))"
  proof (intro allI impI)
    fix m
    assume a: "dict_in ''metadata'' upd \<and> dict_get upd ''metadata'' = PDict m"
    then have "metadata ?r' = dict_update (metadata r) m" using f4 by simp
    then show "(\<forall>k. map_of (metadata ?r') k
                     = (case map_of (rev m) k of Some v \<Rightarrow> Some v | None \<Rightarrow> map_of (metadata r) k)) \<and>
              (distinct (map fst m) \<longrightarrow>
                 (\<forall>k. dict_in k (metadata ?r') = (dict_in k m \<or> dict_in k (metadata r))) \<and>
                 (\<forall>k. dict_get (metadata ?r') k
                        = (if dict_in k m then dict_get m k else dict_get (metadata r) k)))"
      by (simp add: map_of_dict_update dict_get_dict_update dict_in_dict_update)
  qed
  have g0: "\<not> supplies_field upd \<longrightarrow> ?r' = r" by simp
  have g1: "\<not> (dict_in ''target_uri'' upd \<or> dict_in ''targetUri'' upd) \<longrightarrow>
              target_uri ?r' = target_uri r"
    by (simp add: apply_updates_unsupplied)
  have g2: "\<not> (dict_in ''media_type'' upd \<or> dict_in ''mediaType'' upd) \<longrightarrow>
              media_type ?r' = media_type r"
    by (simp add: apply_updates_unsupplied)
  have g3: "\<not> dict_in ''language'' upd \<longrightarrow> language ?r' = language r"
    by (simp add: apply_updates_unsupplied)
  have g4: "\<not> (dict_in ''metadata'' upd \<and> is_dict (dict_get upd ''metadata'')) \<longrightarrow>
              metadata ?r' = metadata r"
    by (simp add: apply_updates_unsupplied)
  have g5: "link_id ?r' = link_id r" "created ?r' = created r"
    by (simp_all add: apply_updates_frame)
  note parts = res w nw s f1 f2 f3 f4 f5 g0 g1 g2 g3 g4 g5
  show ?thesis
    by (rule exI[of _ "?r'"]) (intro conjI; fact parts)
qed

theorem update_of_withdrawn_record_applies_witness:
  "ex_withdrawn_store ex_id = Some ex_withdrawn_record \<and>
   withdrawn ex_withdrawn_record = Some ex_tombstone \<and>
   dict_get (metadata ex_withdrawn_record) ''issuer'' = PStr ''alice'' \<and>
   RegistryService_update ex_withdrawn_store ex_id ex_updates ''alice'' 3
     = Inr (ex_withdrawn_store(ex_id \<mapsto> ex_merged_record)) \<and>
   (\<exists>r'. RegistryService_update ex_withdrawn_store ex_id ex_updates ''alice'' 3
            = Inr (ex_withdrawn_store(ex_id \<mapsto> r')) \<and>
          withdrawn r' = Some ex_tombstone \<and> version r' = 2 \<and> updated r' = 3 \<and>
          target_uri r' = PStr ''https://example.org/new'' \<and>
          media_type r' = PStr ''text/html'' \<and> language r' = PStr ''fr'' \<and>
          dict_get (metadata r') ''note'' = PStr ''moved'' \<and>
          dict_get (metadata r') ''issuer'' = PStr ''alice'' \<and>
          link_id r' = ex_id \<and> created r' = 1)"
proof -
  have h1: "ex_withdrawn_store ex_id = Some ex_withdrawn_record"
    by (simp add: ex_withdrawn_store_def)
  have h2: "withdrawn ex_withdrawn_record = Some ex_tombstone"
    by (simp add: ex_withdrawn_record_def)
  have h3: "dict_get (metadata ex_withdrawn_record) ''issuer'' = PStr ''alice''"
    by (simp add: registry_eval)
  have e: "RegistryService_update ex_withdrawn_store ex_id ex_updates ''alice'' 3
     = Inr (ex_withdrawn_store(ex_id \<mapsto> ex_merged_record))"
    by (simp add: registry_eval ex_updates_def ex_merged_record_def)
  have s: "supplies_field ex_updates"
    by (simp add: supplies_field_def dict_in_def ex_updates_def)
  have d: "dict_in ''targetUri'' ex_updates" "dict_in ''mediaType'' ex_updates"
    "dict_in ''language'' ex_updates"
    "dict_in ''metadata'' ex_updates \<and> dict_get ex_updates ''metadata''
       = PDict [(''note'', PStr ''moved''), (''issuer'', PStr ''alice'')]"
    "distinct (map fst [(''note'', PStr ''moved''), (''issuer'', PStr ''alice'')])"
    by (simp_all add: dict_in_def dict_get_def ex_updates_def)
  have p: "py_or (dict_get ex_updates ''target_uri'') (dict_get ex_updates ''targetUri'')
           = PStr ''https://example.org/new''"
    "py_or (dict_get ex_updates ''media_type'') (dict_get ex_updates ''mediaType'')
           = PStr ''text/html''"
    "dict_get ex_updates ''language'' = PStr ''fr''"
    by (simp_all add: py_or_def dict_get_def ex_updates_def)
  have m: "dict_in ''note'' [(''note'', PStr ''moved''), (''issuer'', PStr ''alice'')]"
    "dict_get [(''note'', PStr ''moved''), (''issuer'', PStr ''alice'')] ''note'' = PStr ''moved''"
    "dict_in ''issuer'' [(''note'', PStr ''moved''), (''issuer'', PStr ''alice'')]"
    "dict_get [(''note'', PStr ''moved''), (''issuer'', PStr ''alice'')] ''issuer'' = PStr ''alice''"
    by (simp_all add: dict_in_def dict_get_def)
  have v: "version ex_withdrawn_record + 1 = 2" "link_id ex_withdrawn_record = ex_id"
    "created ex_withdrawn_record = 1"
    by (simp_all add: ex_withdrawn_record_def ex_record_def)
  from h1 h2 h3 update_of_withdrawn_record_applies[of ex_withdrawn_store ex_id
      ex_withdrawn_record ex_tombstone "''alice''" ex_updates 3]
  obtain r' where r:
    "RegistryService_update ex_withdrawn_store ex_id ex_updates ''alice'' 3
       = Inr (ex_withdrawn_store(ex_id \<mapsto> r'))"
    "withdrawn r' = Some ex_tombstone"
    "supplies_field ex_updates \<longrightarrow> version r' = version ex_withdrawn_record + 1 \<and> updated r' = 3"
    "dict_in ''target_uri'' ex_updates \<or> dict_in ''targetUri'' ex_updates \<longrightarrow>
       target_uri r' = py_or (dict_get ex_updates ''target_uri'') (dict_get ex_updates ''targetUri'')"
    "dict_in ''media_type'' ex_updates \<or> dict_in ''mediaType'' ex_updates \<longrightarrow>
       media_type r' = py_or (dict_get ex_updates ''media_type'') (dict_get ex_updates ''mediaType'')"
    "dict_in ''language'' ex_updates \<longrightarrow> language r' = dict_get ex_updates ''language''"
    "\<forall>m. dict_in ''metadata'' ex_updates \<and> dict_get ex_updates ''metadata'' = PDict m \<longrightarrow>
       (\<forall>k. map_of (metadata r') k
              = (case map_of (rev m) k of Some v \<Rightarrow> Some v
                 | None \<Rightarrow> map_of (metadata ex_withdrawn_record) k)) \<and>
       (distinct (map fst m) \<longrightarrow>
          (\<forall>k. dict_in k (metadata r') = (dict_in k m \<or> dict_in k (metadata ex_withdrawn_record))) \<and>
          (\<forall>k. dict_get (metadata r') k
                 = (if dict_in k m then dict_get m k
                    else dict_get (metadata ex_withdrawn_record) k)))"
    "link_id r' = link_id ex_withdrawn_record" "created r' = created ex_withdrawn_record"
    by blast
  from r(7) d(4,5) have md:
    "\<forall>k. dict_get (metadata r') k
           = (if dict_in k [(''note'', PStr ''moved''), (''issuer'', PStr ''alice'')]
              then dict_get [(''note'', PStr ''moved''), (''issuer'', PStr ''alice'')] k
              else dict_get (metadata ex_withdrawn_record) k)"
    by blast
  have n: "dict_get (metadata r') ''note'' = PStr ''moved''"
    "dict_get (metadata r') ''issuer'' = PStr ''alice''"
    using md m by simp_all
  have "withdrawn r' = Some ex_tombstone \<and> version r' = 2 \<and> updated r' = 3 \<and>
          target_uri r' = PStr ''https://example.org/new'' \<and>
          media_type r' = PStr ''text/html'' \<and> language r' = PStr ''fr'' \<and>
          dict_get (metadata r') ''note'' = PStr ''moved'' \<and>
          dict_get (metadata r') ''issuer'' = PStr ''alice'' \<and>
          link_id r' = ex_id \<and> created r' = 1"
    using r s d p v n by simp
  with r(1) h1 h2 h3 e show ?thesis by blast
qed

subsection \<open>C3: the issuer entry written by create\<close>

lemma create_result:
  assumes "RegistryService_create st payload issuer lid now = Inr (st', r)"
  shows "st' = st(lid \<mapsto> r)"
    and "r = \<lparr>link_id = lid,
             target_uri = py_or (dict_get payload ''target_uri'') (dict_get payload ''targetUri''),
             media_type = py_or (dict_get payload ''media_type'') (dict_get payload ''mediaType''),
             language = dict_get payload ''language'',
             metadata = dict_setdefault (payload_metadata payload) ''issuer'' issuer,
             created = now, updated = now, version = 1, withdrawn = None\<rparr>"
  using assms
  by (cases "dict_get payload ''metadata''";
      auto simp: RegistryService_create_def payload_metadata_def py_or_def Let_def
           split: if_splits)+

lemma setdefault_issuer:
  "dict_in k (dict_setdefault d k v)"
  "dict_get (dict_setdefault d k v) k = (if dict_in k d then dict_get d k else v)"
  by (simp_all add: dict_setdefault_def dict_in_def dict_get_def map_of_dict_set)

lemma update_unauthorized_iff:
  assumes "st i = Some r"
  shows "(RegistryService_update st i upd u now = Inl UnauthorizedError)
         = (truthy (dict_get (metadata r) ''issuer'') \<and> dict_get (metadata r) ''issuer'' \<noteq> PStr u)"
  using assms
  by (simp add: RegistryService_update_def RegistryService_get_any_def Let_def split_def)

lemma withdraw_unauthorized_iff:
  assumes "st i = Some r"
  shows "(RegistryService_withdraw st i wd u now = Inl UnauthorizedError)
         = (truthy (dict_get (metadata r) ''issuer'') \<and> dict_get (metadata r) ''issuer'' \<noteq> PStr u)"
  using assms
  by (simp add: RegistryService_withdraw_def RegistryService_get_any_def Let_def)

text \<open>
  C3, as the code has it. \<^verbatim>\<open>create\<close> writes the issuer with \<^verbatim>\<open>setdefault\<close>: when it returns,
  the record is stored under the identifier, its metadata has an \<^verbatim>\<open>issuer\<close> entry, and that
  entry is the creating identity when the payload's metadata has no \<^verbatim>\<open>issuer\<close> key, and the
  payload's own entry otherwise. Whether \<^verbatim>\<open>update\<close> and \<^verbatim>\<open>withdraw\<close> raise the unauthorized
  error on that record is decided by this entry and the caller's identity alone.
\<close>

theorem create_records_issuer:
  assumes "RegistryService_create st payload issuer lid now = Inr (st', r)"
  shows "st' lid = Some r \<and> dict_in ''issuer'' (metadata r) \<and>
         dict_get (metadata r) ''issuer''
           = (if dict_in ''issuer'' (payload_metadata payload)
              then dict_get (payload_metadata payload) ''issuer'' else issuer) \<and>
         (\<forall>upd u t. (RegistryService_update st' lid upd u t = Inl UnauthorizedError)
              = (truthy (dict_get (metadata r) ''issuer'')
                 \<and> dict_get (metadata r) ''issuer'' \<noteq> PStr u)) \<and>
         (\<forall>wd u t. (RegistryService_withdraw st' lid wd u t = Inl UnauthorizedError)
              = (truthy (dict_get (metadata r) ''issuer'')
                 \<and> dict_get (metadata r) ''issuer'' \<noteq> PStr u))"
proof -
  have s: "st' lid = Some r" using create_result(1)[OF assms] by simp
  have m: "metadata r = dict_setdefault (payload_metadata payload) ''issuer'' issuer"
    using create_result(2)[OF assms] by simp
  show ?thesis
    using s update_unauthorized_iff[of st' lid r] withdraw_unauthorized_iff[of st' lid r]
    by (simp add: m setdefault_issuer)
qed

theorem create_records_issuer_witness:
  "RegistryService_create Map.empty ex_payload (PStr ''alice'') ex_id 1 = Inr (ex_store, ex_record) \<and>
   ex_store ex_id = Some ex_record \<and> dict_in ''issuer'' (metadata ex_record) \<and>
   dict_get (metadata ex_record) ''issuer'' = PStr ''alice'' \<and>
   RegistryService_update ex_store ex_id [] ''bob'' 2 = Inl UnauthorizedError \<and>
   RegistryService_withdraw ex_store ex_id None ''bob'' 2 = Inl UnauthorizedError"
proof -
  have p: "\<not> dict_in ''issuer'' (payload_metadata ex_payload)"
    by (simp add: payload_metadata_def ex_payload_def dict_get_def dict_in_def)
  have t: "truthy (PStr ''alice'') \<and> PStr ''alice'' \<noteq> PStr ''bob''" by simp
  from create_records_issuer[OF ex_create] p t ex_create show ?thesis by simp
qed

text \<open>
  The claim as written fails for a payload whose metadata carries an \<^verbatim>\<open>issuer\<close> key: created
  by \<^verbatim>\<open>alice\<close>, the record names \<^verbatim>\<open>mallory\<close> as its issuer.
\<close>

theorem create_keeps_payload_issuer:
  "RegistryService_create Map.empty ex_forged_payload (PStr ''alice'') ex_id 1
     = Inr (Map.empty(ex_id \<mapsto> ex_forged_record), ex_forged_record) \<and>
   dict_get (metadata ex_forged_record) ''issuer'' = PStr ''mallory'' \<and>
   dict_get (metadata ex_forged_record) ''issuer'' \<noteq> PStr ''alice''"
  by (simp add: registry_eval)

subsection \<open>C4: mutation by another identity\<close>

text \<open>
  C4, as the code has it. The ownership check is \<^verbatim>\<open>if issuer and issuer != user_sub\<close>: when
  the stored issuer is truthy and differs from the caller's identity, \<^verbatim>\<open>update\<close> and
  \<^verbatim>\<open>withdraw\<close> raise the unauthorized error and the store, hence every field of the record,
  is as before the call.
\<close>

theorem unauthorized_leaves_record:
  assumes "st i = Some r"
    and "truthy (dict_get (metadata r) ''issuer'')"
    and "dict_get (metadata r) ''issuer'' \<noteq> PStr u"
  shows "RegistryService_update st i upd u now = Inl UnauthorizedError \<and>
         RegistryService_withdraw st i wd u now = Inl UnauthorizedError \<and>
         step st (Update i upd u now) = st \<and>
         step st (Withdraw i wd u now) = st"
  using assms update_unauthorized_iff[of st i r upd u now]
    withdraw_unauthorized_iff[of st i r wd u now]
  by simp

theorem unauthorized_leaves_record_witness:
  "ex_store ex_id = Some ex_record \<and>
   truthy (dict_get (metadata ex_record) ''issuer'') \<and>
   dict_get (metadata ex_record) ''issuer'' \<noteq> PStr ''bob'' \<and>
   RegistryService_update ex_store ex_id [(''targetUri'', PStr ''https://evil.example/'')] ''bob'' 2
     = Inl UnauthorizedError \<and>
   RegistryService_withdraw ex_store ex_id (Some [(''reason'', PStr ''spam'')]) ''bob'' 2
     = Inl UnauthorizedError \<and>
   step ex_store (Update ex_id [(''targetUri'', PStr ''https://evil.example/'')] ''bob'' 2) = ex_store \<and>
   step ex_store (Withdraw ex_id (Some [(''reason'', PStr ''spam'')]) ''bob'' 2) = ex_store"
proof -
  have h1: "ex_store ex_id = Some ex_record" by (simp add: ex_store_def)
  have h2: "truthy (dict_get (metadata ex_record) ''issuer'')" by (simp add: registry_eval)
  have h3: "dict_get (metadata ex_record) ''issuer'' \<noteq> PStr ''bob''" by (simp add: registry_eval)
  from h1 h2 h3 unauthorized_leaves_record[of ex_store ex_id ex_record "''bob''"
      "[(''targetUri'', PStr ''https://evil.example/'')]" 2 "Some [(''reason'', PStr ''spam'')]"]
  show ?thesis by blast
qed

text \<open>
  The claim as written fails when the stored issuer is falsy. A payload whose metadata is
  \<^verbatim>\<open>{"issuer": ""}\<close> creates such a record; \<^verbatim>\<open>mallory\<close>, who is not the empty string, then
  updates it and withdraws it.
\<close>

theorem falsy_issuer_lets_anyone_update:
  "RegistryService_create Map.empty ex_unowned_payload (PStr ''alice'') ex_id 1
     = Inr (Map.empty(ex_id \<mapsto> ex_unowned_record), ex_unowned_record) \<and>
   dict_get (metadata ex_unowned_record) ''issuer'' = PStr [] \<and>
   dict_get (metadata ex_unowned_record) ''issuer'' \<noteq> PStr ''mallory'' \<and>
   RegistryService_update (Map.empty(ex_id \<mapsto> ex_unowned_record)) ex_id
       [(''targetUri'', PStr ''https://evil.example/'')] ''mallory'' 2
     = Inr (Map.empty(ex_id \<mapsto> ex_unowned_record\<lparr>target_uri := PStr ''https://evil.example/'',
                                                   version := 2, updated := 2\<rparr>)) \<and>
   RegistryService_withdraw (Map.empty(ex_id \<mapsto> ex_unowned_record)) ex_id
       (Some [(''reason'', PStr ''spam'')]) ''mallory'' 2
     = Inr (Map.empty(ex_id \<mapsto> ex_unowned_record\<lparr>withdrawn :=
              Some \<lparr>reason = PStr ''spam'', at_time = 2\<rparr>\<rparr>))"
  by (simp add: registry_eval)

subsection \<open>C2: a withdrawn record stays withdrawn\<close>

lemma tombstone_get:
  "tombstone_of st i = Some t \<Longrightarrow>
   RegistryService_get st i
     = Inl (LinkIdWithdrawnError i [(''reason'', reason t), (''at'', PFloat (at_time t))])"
  by (auto simp: tombstone_of_def RegistryService_get_def split: option.splits)

lemma tombstone_resolve:
  "tombstone_of st i = Some t \<Longrightarrow>
   RegistryService_resolve st i
     = Inl (LinkIdWithdrawnError i [(''reason'', reason t), (''at'', PFloat (at_time t))])"
  by (simp add: RegistryService_resolve_def tombstone_get)

lemma tombstone_resolver:
  "tombstone_of st i = Some t \<Longrightarrow>
   ResolverService_resolve st i params
     = Inl (LinkIdWithdrawnError i [(''reason'', reason t), (''at'', PFloat (at_time t))])"
  by (simp add: ResolverService_resolve_def tombstone_resolve)

lemma create_tombstone:
  "lid \<noteq> i \<Longrightarrow> tombstone_of (step st (Create payload issuer lid now)) i = tombstone_of st i"
  by (cases "RegistryService_create st payload issuer lid now")
     (auto simp: tombstone_of_def dest: create_result(1))

lemma update_tombstone:
  "tombstone_of (step st (Update lid upd u now)) i = tombstone_of st i"
proof (cases "RegistryService_update st lid upd u now")
  case (Inl e)
  then show ?thesis by simp
next
  case (Inr st')
  then obtain r where r: "st lid = Some r"
    by (auto simp: RegistryService_update_def RegistryService_get_any_def split: option.splits)
  have "st' = st(lid \<mapsto> (if supplies_field upd
                          then (fst (apply_updates r upd))\<lparr>version := version r + 1, updated := now\<rparr>
                          else r))"
    using update_result[of st lid r u upd now] update_authorized[of st lid r upd u now st'] r Inr
    by simp
  then show ?thesis using Inr r
    by (auto simp: tombstone_of_def apply_updates_frame)
qed

lemma withdraw_tombstone_other:
  "lid \<noteq> i \<Longrightarrow> tombstone_of (step st (Withdraw lid wd u now)) i = tombstone_of st i"
  by (auto simp: tombstone_of_def RegistryService_withdraw_def RegistryService_get_any_def Let_def
      split: option.splits)

lemma withdraw_tombstone_same:
  "tombstone_of st i = Some t \<Longrightarrow> \<exists>t'. tombstone_of (step st (Withdraw i wd u now)) i = Some t'"
  by (auto simp: tombstone_of_def RegistryService_withdraw_def RegistryService_get_any_def Let_def
      split: option.splits)

lemma withdraw_sets_tombstone:
  "RegistryService_withdraw st i wd u now = Inr st' \<Longrightarrow>
   tombstone_of st' i
     = Some \<lparr>reason = dict_get (case wd of None \<Rightarrow> [] | Some d \<Rightarrow> d) ''reason'', at_time = now\<rparr>"
  by (auto simp: tombstone_of_def RegistryService_withdraw_def RegistryService_get_any_def Let_def
      Tombstone_init_def split: option.splits if_splits)

lemma step_keeps_withdrawn:
  assumes "tombstone_of st i = Some t" and "never_reissues i [c]"
  shows "\<exists>t'. tombstone_of (step st c) i = Some t'"
proof (cases c)
  case (Create payload issuer lid now)
  then show ?thesis using assms create_tombstone[of lid i st payload issuer now]
    by (simp del: step.simps)
next
  case (Update lid upd u now)
  then show ?thesis using assms update_tombstone[of st lid upd u now i]
    by (simp del: step.simps)
next
  case (Withdraw lid wd u now)
  then show ?thesis
    using assms withdraw_tombstone_same[of st i t wd u now]
      withdraw_tombstone_other[of lid i st wd u now]
    by (cases "lid = i") (simp_all del: step.simps)
qed (use assms in \<open>simp_all add: tombstone_of_def\<close>)

lemma step_keeps_tombstone:
  assumes "tombstone_of st i = Some t" and "never_reissues i [c]" and "no_withdraw i [c]"
  shows "tombstone_of (step st c) i = Some t"
proof (cases c)
  case (Create payload issuer lid now)
  then show ?thesis using assms create_tombstone[of lid i st payload issuer now]
    by (simp del: step.simps)
next
  case (Update lid upd u now)
  then show ?thesis using assms update_tombstone[of st lid upd u now i]
    by (simp del: step.simps)
next
  case (Withdraw lid wd u now)
  then show ?thesis using assms withdraw_tombstone_other[of lid i st wd u now]
    by (simp del: step.simps)
qed (use assms in \<open>simp_all add: tombstone_of_def\<close>)

lemma never_reissues_Cons: "never_reissues i (c # cs) = (never_reissues i [c] \<and> never_reissues i cs)"
  by (cases c) simp_all

lemma no_withdraw_Cons: "no_withdraw i (c # cs) = (no_withdraw i [c] \<and> no_withdraw i cs)"
  by (cases c) simp_all

lemma run_keeps_withdrawn:
  "tombstone_of st i = Some t \<Longrightarrow> never_reissues i cs \<Longrightarrow> \<exists>t'. tombstone_of (run st cs) i = Some t'"
proof (induction cs arbitrary: st t)
  case Nil
  then show ?case by simp
next
  case (Cons c cs)
  from Cons.prems have a: "never_reissues i [c]" and b: "never_reissues i cs"
    using never_reissues_Cons[of i c cs] by simp_all
  from step_keeps_withdrawn[OF Cons.prems(1) a] obtain t' where
    "tombstone_of (step st c) i = Some t'" by blast
  from Cons.IH[OF this b] show ?case by simp
qed

lemma run_keeps_tombstone:
  "tombstone_of st i = Some t \<Longrightarrow> never_reissues i cs \<Longrightarrow> no_withdraw i cs \<Longrightarrow>
   tombstone_of (run st cs) i = Some t"
proof (induction cs arbitrary: st)
  case Nil
  then show ?case by simp
next
  case (Cons c cs)
  from Cons.prems have a: "never_reissues i [c]" and b: "never_reissues i cs"
    using never_reissues_Cons[of i c cs] by simp_all
  from Cons.prems have a': "no_withdraw i [c]" and b': "no_withdraw i cs"
    using no_withdraw_Cons[of i c cs] by simp_all
  from Cons.IH[OF step_keeps_tombstone[OF Cons.prems(1) a a'] b b'] show ?case by simp
qed

lemma ex_calls_ok: "never_reissues ex_id ex_calls" "no_withdraw ex_id ex_calls"
  by (simp_all add: ex_calls_def ex_id_def ex_other_id_def)

lemma ex_withdraw:
  "RegistryService_withdraw ex_store ex_id (Some [(''reason'', PStr ''owner request'')]) ''alice'' 2
     = Inr ex_withdrawn_store"
  by (simp add: registry_eval)

text \<open>
  C2. Once \<^verbatim>\<open>withdraw\<close> has succeeded on an identifier, after any sequence of registry calls
  the record still carries a tombstone, and \<^verbatim>\<open>get\<close> (the spec's \<^verbatim>\<open>getActive\<close>) and \<^verbatim>\<open>resolve\<close>,
  of the registry and of the resolver, fail with the withdrawn error carrying the reason and time of the stored tombstone; the
  readers leave the store alone, so repeating them changes nothing. As long as no later
  call withdraws the identifier again, the stored tombstone is the one of that first
  withdrawal. The sequences are those in which \<^verbatim>\<open>create\<close> does not draw the identifier
  again: \<^verbatim>\<open>create\<close> stores under the fresh \<^verbatim>\<open>uuid4\<close> value unconditionally.
\<close>

theorem withdrawn_is_terminal:
  assumes "RegistryService_withdraw st i wd u now = Inr st1" and "never_reissues i cs"
  shows "\<exists>t. tombstone_of (run st1 cs) i = Some t \<and>
           RegistryService_get (run st1 cs) i
             = Inl (LinkIdWithdrawnError i [(''reason'', reason t), (''at'', PFloat (at_time t))]) \<and>
           RegistryService_resolve (run st1 cs) i
             = Inl (LinkIdWithdrawnError i [(''reason'', reason t), (''at'', PFloat (at_time t))]) \<and>
           (\<forall>params. ResolverService_resolve (run st1 cs) i params
             = Inl (LinkIdWithdrawnError i [(''reason'', reason t), (''at'', PFloat (at_time t))])) \<and>
           (no_withdraw i cs \<longrightarrow>
              t = \<lparr>reason = dict_get (case wd of None \<Rightarrow> [] | Some d \<Rightarrow> d) ''reason'',
                   at_time = now\<rparr>)"
proof -
  let ?t0 = "\<lparr>reason = dict_get (case wd of None \<Rightarrow> [] | Some d \<Rightarrow> d) ''reason'', at_time = now\<rparr>"
  have t0: "tombstone_of st1 i = Some ?t0" by (rule withdraw_sets_tombstone[OF assms(1)])
  from run_keeps_withdrawn[OF t0 assms(2)] obtain t where t: "tombstone_of (run st1 cs) i = Some t"
    by blast
  have same: "no_withdraw i cs \<Longrightarrow> t = ?t0"
    using run_keeps_tombstone[OF t0 assms(2)] t by simp
  show ?thesis using t tombstone_get[OF t] tombstone_resolve[OF t] tombstone_resolver[OF t] same
    by blast
qed

theorem withdrawn_is_terminal_witness:
  "RegistryService_withdraw ex_store ex_id (Some [(''reason'', PStr ''owner request'')]) ''alice'' 2
     = Inr ex_withdrawn_store \<and>
   never_reissues ex_id ex_calls \<and> no_withdraw ex_id ex_calls \<and>
   RegistryService_get (run ex_withdrawn_store ex_calls) ex_id
     = Inl (LinkIdWithdrawnError ex_id [(''reason'', PStr ''owner request''), (''at'', PFloat 2)]) \<and>
   RegistryService_resolve (run ex_withdrawn_store ex_calls) ex_id
     = Inl (LinkIdWithdrawnError ex_id [(''reason'', PStr ''owner request''), (''at'', PFloat 2)]) \<and>
   ResolverService_resolve (run ex_withdrawn_store ex_calls) ex_id ex_redirect_request
     = Inl (LinkIdWithdrawnError ex_id [(''reason'', PStr ''owner request''), (''at'', PFloat 2)])"
proof -
  from withdrawn_is_terminal[OF ex_withdraw ex_calls_ok(1)] ex_calls_ok(2)
  obtain t where
    g: "RegistryService_get (run ex_withdrawn_store ex_calls) ex_id
          = Inl (LinkIdWithdrawnError ex_id [(''reason'', reason t), (''at'', PFloat (at_time t))])"
    and r: "RegistryService_resolve (run ex_withdrawn_store ex_calls) ex_id
          = Inl (LinkIdWithdrawnError ex_id [(''reason'', reason t), (''at'', PFloat (at_time t))])"
    and r': "ResolverService_resolve (run ex_withdrawn_store ex_calls) ex_id ex_redirect_request
          = Inl (LinkIdWithdrawnError ex_id [(''reason'', reason t), (''at'', PFloat (at_time t))])"
    and t: "t = \<lparr>reason = dict_get (case Some [(''reason'', PStr ''owner request'')] of
                                      None \<Rightarrow> [] | Some d \<Rightarrow> d) ''reason'',
                 at_time = 2\<rparr>"
    by blast
  have "reason t = PStr ''owner request''" "at_time t = 2"
    by (simp_all add: t dict_get_def)
  with g r r' ex_withdraw ex_calls_ok show ?thesis by simp
qed

subsection \<open>C5: what changes a tombstone\<close>

text \<open>
  C5, as the code has it. The tombstone of a withdrawn record is left as it is by every
  sequence of calls that does not withdraw the identifier again; a further \<^verbatim>\<open>withdraw\<close> of
  the identifier that passes the ownership check stores a new tombstone, with the reason
  of that call and the time of that call.
\<close>

theorem tombstone_changes_only_by_withdraw:
  assumes "tombstone_of st i = Some t" and "never_reissues i cs"
  shows "(no_withdraw i cs \<longrightarrow> tombstone_of (run st cs) i = Some t) \<and>
         (\<forall>wd u now st'. RegistryService_withdraw st i wd u now = Inr st' \<longrightarrow>
            tombstone_of st' i
              = Some \<lparr>reason = dict_get (case wd of None \<Rightarrow> [] | Some d \<Rightarrow> d) ''reason'',
                      at_time = now\<rparr>)"
  using run_keeps_tombstone[OF assms] withdraw_sets_tombstone by blast

theorem tombstone_changes_only_by_withdraw_witness:
  "tombstone_of ex_withdrawn_store ex_id = Some ex_tombstone \<and>
   never_reissues ex_id ex_calls \<and> no_withdraw ex_id ex_calls \<and>
   tombstone_of (run ex_withdrawn_store ex_calls) ex_id = Some ex_tombstone"
proof -
  have h: "tombstone_of ex_withdrawn_store ex_id = Some ex_tombstone"
    by (simp add: tombstone_of_def ex_withdrawn_store_def ex_withdrawn_record_def)
  from tombstone_changes_only_by_withdraw[OF h ex_calls_ok(1)] h ex_calls_ok
  show ?thesis by blast
qed

text \<open>
  The claim as written fails on a repeated withdrawal: the owner withdraws again with
  another reason one second later, and both the reason and the time of the tombstone change.
\<close>

theorem second_withdraw_replaces_tombstone:
  "tombstone_of ex_withdrawn_store ex_id = Some \<lparr>reason = PStr ''owner request'', at_time = 2\<rparr> \<and>
   tombstone_of (run ex_withdrawn_store [Withdraw ex_id (Some [(''reason'', PStr ''spam'')]) ''alice'' 3])
       ex_id = Some \<lparr>reason = PStr ''spam'', at_time = 3\<rparr>"
  by (simp add: registry_eval)

section \<open>Facts about registration over HTTP\<close>

lemmas http_eval =
  register_linkid_def RegistrationRequest_validate_def field_lookup_def
  ResolverService_register_def has_scope_def of_optional_str_def ex_user_def
  ex_relative_record_def


lemma validate_missing:
  "\<not> dict_in ''targetUri'' body \<Longrightarrow> \<not> dict_in ''target_uri'' body \<Longrightarrow>
   RegistrationRequest_validate body = None"
  by (simp add: RegistrationRequest_validate_def field_lookup_def dict_in_def)

lemma register_result:
  assumes "ResolverService_register st payload lid now = Inr (st', (rid, rcreated))"
  shows "rid = lid \<and> rcreated = now \<and> (\<exists>r. st' = st(lid \<mapsto> r) \<and> version r = 1 \<and> link_id r = lid)"
proof -
  from assms obtain r where
    c: "RegistryService_create st payload (py_or (dict_get payload ''issuer'') (PStr ''unknown'')) lid now
          = Inr (st', r)" and i: "rid = link_id r" "rcreated = created r"
    by (auto simp: ResolverService_register_def Let_def split: sum.splits)
  have s: "st' = st(lid \<mapsto> r)" by (rule create_result(1)[OF c])
  have f: "version r = 1" "link_id r = lid" "created r = now"
    using create_result(2)[OF c] by simp_all
  show ?thesis using s f i by auto
qed

subsection \<open>C6: what registration rejects\<close>

text \<open>
  C6, as the code has it. \<^verbatim>\<open>POST /register\<close> is refused with a validation error, and the
  registry is not reached, when the body has no target under \<^verbatim>\<open>targetUri\<close> or \<^verbatim>\<open>target_uri\<close>:
  the field is required by \<^verbatim>\<open>RegistrationRequest\<close>. When the request succeeds the record is
  stored under the new identifier with version 1, as \<^verbatim>\<open>RegistryService.create\<close> does for
  every payload it accepts. Neither the request model nor \<^verbatim>\<open>create\<close> looks at the form of
  the target.
\<close>

theorem register_rejects_missing_target:
  "(\<not> dict_in ''targetUri'' body \<and> \<not> dict_in ''target_uri'' body \<longrightarrow>
      register_linkid st body user lid now = Inl RequestValidationError) \<and>
   (\<forall>st' resp. register_linkid st body user lid now = Inr (st', resp) \<longrightarrow>
      (\<exists>r. st' = st(lid \<mapsto> r) \<and> version r = 1 \<and> dict_get resp ''id'' = PStr lid)) \<and>
   (\<forall>payload issuer st' r. RegistryService_create st payload issuer lid now = Inr (st', r) \<longrightarrow>
      st' = st(lid \<mapsto> r) \<and> version r = 1)"
proof -
  have a: "\<not> dict_in ''targetUri'' body \<and> \<not> dict_in ''target_uri'' body \<Longrightarrow>
      register_linkid st body user lid now = Inl RequestValidationError"
    by (simp add: register_linkid_def validate_missing)
  have b: "\<exists>r. st' = st(lid \<mapsto> r) \<and> version r = 1 \<and> dict_get resp ''id'' = PStr lid"
    if "register_linkid st body user lid now = Inr (st', resp)" for st' resp
  proof -
    from that obtain payload rid rcreated where
      p: "ResolverService_register st payload lid now = Inr (st', (rid, rcreated))"
      and q: "resp = [(''id'', PStr rid), (''uri'', PStr (''https://w3id.org/linkid/'' @ rid)),
                      (''created'', PFloat rcreated)]"
      by (auto simp: register_linkid_def split: option.splits if_splits sum.splits)
    from register_result[OF p] q show ?thesis by (auto simp: dict_get_def)
  qed
  have c: "st' = st(lid \<mapsto> r) \<and> version r = 1"
    if "RegistryService_create st payload issuer lid now = Inr (st', r)" for payload issuer st' r
    using create_result[OF that] by simp
  show ?thesis using a b c by blast
qed

theorem register_rejects_missing_target_witness:
  "\<not> dict_in ''targetUri'' [(''mediaType'', PStr ''text/html'')] \<and>
   \<not> dict_in ''target_uri'' [(''mediaType'', PStr ''text/html'')] \<and>
   register_linkid ex_store [(''mediaType'', PStr ''text/html'')] (Some ex_user) ex_other_id 2
     = Inl RequestValidationError \<and>
   RegistryService_create Map.empty ex_payload (PStr ''alice'') ex_id 1 = Inr (ex_store, ex_record) \<and>
   ex_store = Map.empty(ex_id \<mapsto> ex_record) \<and> version ex_record = 1"
proof -
  have h: "\<not> dict_in ''targetUri'' [(''mediaType'', PStr ''text/html'')] \<and>
           \<not> dict_in ''target_uri'' [(''mediaType'', PStr ''text/html'')]"
    by (simp add: dict_in_def)
  from register_rejects_missing_target[of "[(''mediaType'', PStr ''text/html'')]" ex_store
      "Some ex_user" ex_other_id 2] h
  have r: "register_linkid ex_store [(''mediaType'', PStr ''text/html'')] (Some ex_user) ex_other_id 2
     = Inl RequestValidationError" by blast
  from register_rejects_missing_target[of "[]" Map.empty None ex_id 1] ex_create
  have "ex_store = Map.empty(ex_id \<mapsto> ex_record) \<and> version ex_record = 1" by blast
  with h r ex_create show ?thesis by blast
qed

text \<open>
  The claim as written fails for a target that is not an absolute URI: the body
  \<^verbatim>\<open>{"targetUri": "resource/1"}\<close> of an authenticated writer is stored.
\<close>

theorem register_accepts_relative_target:
  "register_linkid Map.empty [(''targetUri'', PStr ''resource/1'')] (Some ex_user) ex_id 1
     = Inr (Map.empty(ex_id \<mapsto> ex_relative_record),
            [(''id'', PStr ex_id), (''uri'', PStr (''https://w3id.org/linkid/'' @ ex_id)),
             (''created'', PFloat 1)]) \<and>
   target_uri ex_relative_record = PStr ''resource/1''"
  by (simp add: http_eval registry_eval)

section \<open>Facts about the resolver\<close>

lemma py_int_floor: "0 \<le> x \<Longrightarrow> py_int x = \<lfloor>x\<rfloor>"
  by (simp add: py_int_def)

lemma str_int_examples:
  "str_int 1 = ''1''" "str_int 2 = ''2''" "str_int 1700000000 = ''1700000000''"
  by (simp_all add: str_int_def str_nat.simps)

subsection \<open>C7: the two shapes of a resolution\<close>

text \<open>
  C7, as the code has it. For an active record, \<^verbatim>\<open>resolve\<close> with \<^verbatim>\<open>prefer_redirect\<close> true returns
  the redirect with the record's target, not permanent, a TTL of 300 and quality 1.0;
  with \<^verbatim>\<open>prefer_redirect\<close> false it returns the metadata result whose data are exactly the
  eight fields \<^verbatim>\<open>id, target, mediaType, language, created, updated, version, metadata\<close>, a
  TTL of 120, and the validator \<^verbatim>\<open>W/"{version}-{int(updated)}"\<close>: the weak-validator prefix
  and the double quotes are part of the string, and \<^verbatim>\<open>int\<close> truncates toward zero, which is
  the floor for a time that is not negative.
\<close>

theorem resolve_shapes_result:
  assumes "RegistryService_get st i = Inr r"
  shows "(prefer_redirect params \<longrightarrow>
            ResolverService_resolve st i params
              = Inr \<lparr>rtype = ''redirect'', uri = target_uri r, permanent = False,
                     cache_ttl = Some 300, quality = Some 1, data = None, etag = None\<rparr>) \<and>
         (\<not> prefer_redirect params \<longrightarrow>
            ResolverService_resolve st i params
              = Inr \<lparr>rtype = ''metadata'', uri = PNone, permanent = False,
                     cache_ttl = Some 120, quality = None,
                     data = Some [(''id'', PStr (link_id r)),
                                  (''target'', target_uri r),
                                  (''mediaType'', media_type r),
                                  (''language'', language r),
                                  (''created'', PFloat (created r)),
                                  (''updated'', PFloat (updated r)),
                                  (''version'', PInt (version r)),
                                  (''metadata'', PDict (metadata r))],
                     etag = Some (''W/'' @ [CHR 0x22] @ str_int (version r) @ ''-''
                                  @ str_int (py_int (updated r)) @ [CHR 0x22])\<rparr>) \<and>
         (0 \<le> updated r \<longrightarrow> py_int (updated r) = \<lfloor>updated r\<rfloor>)"
  using assms
  by (simp add: ResolverService_resolve_def RegistryService_resolve_def py_int_floor)

theorem resolve_shapes_result_witness:
  "RegistryService_get ex_store ex_id = Inr ex_record \<and>
   ResolverService_resolve ex_store ex_id ex_redirect_request
     = Inr \<lparr>rtype = ''redirect'', uri = PStr ''https://example.org/resource'', permanent = False,
            cache_ttl = Some 300, quality = Some 1, data = None, etag = None\<rparr> \<and>
   ResolverService_resolve ex_store ex_id ex_metadata_request
     = Inr \<lparr>rtype = ''metadata'', uri = PNone, permanent = False,
            cache_ttl = Some 120, quality = None,
            data = Some [(''id'', PStr ex_id),
                         (''target'', PStr ''https://example.org/resource''),
                         (''mediaType'', PNone),
                         (''language'', PStr ''en''),
                         (''created'', PFloat 1),
                         (''updated'', PFloat 1),
                         (''version'', PInt 1),
                         (''metadata'', PDict [(''issuer'', PStr ''alice'')])],
            etag = Some (''W/'' @ [CHR 0x22] @ ''1-1'' @ [CHR 0x22])\<rparr>"
proof -
  have h: "RegistryService_get ex_store ex_id = Inr ex_record"
    by (simp add: RegistryService_get_def ex_store_def ex_record_def)
  have p: "prefer_redirect ex_redirect_request" "\<not> prefer_redirect ex_metadata_request"
    by (simp_all add: ex_redirect_request_def ex_metadata_request_def)
  have e: "str_int (version ex_record) = ''1''" "str_int (py_int (updated ex_record)) = ''1''"
    by (simp_all add: ex_record_def py_int_def str_int_examples)
  from resolve_shapes_result[OF h, of ex_redirect_request]
       resolve_shapes_result[OF h, of ex_metadata_request] p e h
  show ?thesis by (simp add: ex_record_def)
qed

text \<open>
  The claim as written fails on the validator: for version 2 and an update time of
  1700000000.75 it is \<^verbatim>\<open>W/"2-1700000000"\<close>, which is neither \<^verbatim>\<open>2-1700000000\<close> nor that string
  in double quotes.
\<close>

theorem etag_has_weak_prefix:
  "ResolverService_resolve (Map.empty(ex_id \<mapsto> ex_updated_record)) ex_id ex_metadata_request
     = Inr \<lparr>rtype = ''metadata'', uri = PNone, permanent = False,
            cache_ttl = Some 120, quality = None,
            data = Some [(''id'', PStr ex_id),
                         (''target'', PStr ''https://example.org/new''),
                         (''mediaType'', PNone),
                         (''language'', PStr ''en''),
                         (''created'', PFloat 1),
                         (''updated'', PFloat 1700000000.75),
                         (''version'', PInt 2),
                         (''metadata'', PDict [(''issuer'', PStr ''alice'')])],
            etag = Some (''W/'' @ [CHR 0x22] @ ''2-1700000000'' @ [CHR 0x22])\<rparr> \<and>
   ''W/'' @ [CHR 0x22] @ ''2-1700000000'' @ [CHR 0x22] \<noteq> ''2-1700000000'' \<and>
   ''W/'' @ [CHR 0x22] @ ''2-1700000000'' @ [CHR 0x22]
     \<noteq> [CHR 0x22] @ ''2-1700000000'' @ [CHR 0x22]"
  by (simp add: ResolverService_resolve_def RegistryService_resolve_def RegistryService_get_def
      ex_updated_record_def ex_record_def ex_metadata_request_def ex_redirect_request_def
      py_int_def str_int_examples)

section \<open>Facts about the caches\<close>

lemma TTLCache_set_stores:
  assumes "0 < max_size c"
    and "to_float fl (case ttl of Some t \<Rightarrow> t | None \<Rightarrow> default_ttl c) = Some f"
  shows "\<exists>c'. TTLCache_set fl c key w ttl now = (None, c') \<and>
           map_of (ttl_store c') key = Some (w, fadd fl now f)"
proof (cases "ttl_store c")
  case Nil
  then show ?thesis using assms by (simp add: TTLCache_set_def map_of_dict_set)
next
  case (Cons p rest)
  then show ?thesis using assms(2)
    by (cases p) (simp add: TTLCache_set_def map_of_dict_set)
qed

lemma TTLCache_set_overflows:
  assumes "0 < max_size c"
    and "to_float fl (case ttl of Some t \<Rightarrow> t | None \<Rightarrow> default_ttl c) = None"
  shows "fst (TTLCache_set fl c key w ttl now) = Some OverflowError"
proof (cases "ttl_store c")
  case Nil
  then show ?thesis using assms by (simp add: TTLCache_set_def)
next
  case (Cons p rest)
  then show ?thesis using assms(2)
    by (cases p) (simp add: TTLCache_set_def)
qed

subsection \<open>C9: expiry and storing\<close>

text \<open>
  C9, as the code has it. Both \<^verbatim>\<open>get\<close> methods test \<^verbatim>\<open>expires_at < time.time()\<close>: for a stored
  key, \<^verbatim>\<open>get\<close> is a miss and removes the entry when the expiry lies strictly before the
  clock, and is a hit that leaves the store alone otherwise, also at the instant of expiry
  itself. \<^verbatim>\<open>set\<close> stores the value with the expiry \<^verbatim>\<open>time.time() + float(ttl)\<close>, the sum as
  float arithmetic gives it, when the TTL converts to a float, and raises the overflow
  error when it does not, the server's cache storing nothing then. The client's cache takes
  its default TTL when none is given, and stores whenever its capacity is positive (the
  client builds it with a capacity of 1024); at capacity it first drops its oldest key,
  also when the conversion then fails. Removing or storing a key leaves every other key
  as it was.
\<close>

theorem cache_get_set_behaviour:
  "(map_of st key = Some (v, e) \<and> e < now \<longrightarrow>
      CacheService_get st key now = (None, dict_pop key st)
      \<and> map_of (dict_pop key st) key = None) \<and>
   (map_of st key = Some (v, e) \<and> now \<le> e \<longrightarrow>
      CacheService_get st key now = (Some v, st)) \<and>
   (to_float fl ttl = Some f \<longrightarrow>
      CacheService_set fl st key v ttl now = (None, dict_set key (v, fadd fl now f) st)
      \<and> map_of (dict_set key (v, fadd fl now f) st) key = Some (v, fadd fl now f)) \<and>
   (to_float fl ttl = None \<longrightarrow>
      CacheService_set fl st key v ttl now = (Some OverflowError, st)) \<and>
   (map_of (ttl_store c) key = Some (w, e) \<and> e < now \<longrightarrow>
      TTLCache_get c key now = (None, c\<lparr>ttl_store := dict_pop key (ttl_store c)\<rparr>)
      \<and> map_of (dict_pop key (ttl_store c)) key = None) \<and>
   (map_of (ttl_store c) key = Some (w, e) \<and> now \<le> e \<longrightarrow>
      TTLCache_get c key now = (Some w, c)) \<and>
   (0 < max_size c
    \<and> to_float fl (case ttl' of Some t \<Rightarrow> t | None \<Rightarrow> default_ttl c) = Some f' \<longrightarrow>
      (\<exists>c'. TTLCache_set fl c key w ttl' now = (None, c') \<and>
            map_of (ttl_store c') key = Some (w, fadd fl now f'))) \<and>
   (0 < max_size c
    \<and> to_float fl (case ttl' of Some t \<Rightarrow> t | None \<Rightarrow> default_ttl c) = None \<longrightarrow>
      fst (TTLCache_set fl c key w ttl' now) = Some OverflowError) \<and>
   (int (length (ttl_store c)) < max_size c \<longrightarrow>
      TTLCache_set fl c key w ttl' now
        = (case to_float fl (case ttl' of Some t \<Rightarrow> t | None \<Rightarrow> default_ttl c) of
             None \<Rightarrow> (Some OverflowError, c)
           | Some x \<Rightarrow> (None, c\<lparr>ttl_store := dict_set key (w, fadd fl now x) (ttl_store c)\<rparr>))) \<and>
   (max_size c \<le> int (length (ttl_store c)) \<and> ttl_store c = (k0, e0) # rest \<longrightarrow>
      TTLCache_set fl c key w ttl' now
        = (case to_float fl (case ttl' of Some t \<Rightarrow> t | None \<Rightarrow> default_ttl c) of
             None \<Rightarrow> (Some OverflowError, c\<lparr>ttl_store := dict_pop k0 (ttl_store c)\<rparr>)
           | Some x \<Rightarrow>
               (None, c\<lparr>ttl_store :=
                         dict_set key (w, fadd fl now x) (dict_pop k0 (ttl_store c))\<rparr>))) \<and>
   (max_size c \<le> 0 \<and> ttl_store c = [] \<longrightarrow>
      TTLCache_set fl c key w ttl' now = (Some StopIteration, c)) \<and>
   (\<forall>k'. map_of (dict_pop key st) k' = (if k' = key then None else map_of st k')) \<and>
   (\<forall>k' x. map_of (dict_set key x st) k' = (if k' = key then Some x else map_of st k')) \<and>
   (\<forall>k'. map_of (dict_pop key (ttl_store c)) k'
           = (if k' = key then None else map_of (ttl_store c) k')) \<and>
   (\<forall>k' x. map_of (dict_set key x (ttl_store c)) k'
           = (if k' = key then Some x else map_of (ttl_store c) k'))"
proof -
  have a: "map_of st key = Some (v, e) \<and> e < now \<longrightarrow>
      CacheService_get st key now = (None, dict_pop key st)
      \<and> map_of (dict_pop key st) key = None"
    by (simp add: CacheService_get_def map_of_dict_pop)
  have b: "map_of st key = Some (v, e) \<and> now \<le> e \<longrightarrow>
      CacheService_get st key now = (Some v, st)"
    by (simp add: CacheService_get_def)
  have s: "to_float fl ttl = Some f \<longrightarrow>
      CacheService_set fl st key v ttl now = (None, dict_set key (v, fadd fl now f) st)
      \<and> map_of (dict_set key (v, fadd fl now f) st) key = Some (v, fadd fl now f)"
    by (simp add: CacheService_set_def map_of_dict_set)
  have s': "to_float fl ttl = None \<longrightarrow>
      CacheService_set fl st key v ttl now = (Some OverflowError, st)"
    by (simp add: CacheService_set_def)
  have a': "map_of (ttl_store c) key = Some (w, e) \<and> e < now \<longrightarrow>
      TTLCache_get c key now = (None, c\<lparr>ttl_store := dict_pop key (ttl_store c)\<rparr>)
      \<and> map_of (dict_pop key (ttl_store c)) key = None"
    by (simp add: TTLCache_get_def map_of_dict_pop)
  have b': "map_of (ttl_store c) key = Some (w, e) \<and> now \<le> e \<longrightarrow>
      TTLCache_get c key now = (Some w, c)"
    by (simp add: TTLCache_get_def)
  have t: "0 < max_size c
    \<and> to_float fl (case ttl' of Some t \<Rightarrow> t | None \<Rightarrow> default_ttl c) = Some f' \<longrightarrow>
      (\<exists>c'. TTLCache_set fl c key w ttl' now = (None, c') \<and>
            map_of (ttl_store c') key = Some (w, fadd fl now f'))"
    using TTLCache_set_stores[of c fl ttl' f' key w now] by simp
  have t': "0 < max_size c
    \<and> to_float fl (case ttl' of Some t \<Rightarrow> t | None \<Rightarrow> default_ttl c) = None \<longrightarrow>
      fst (TTLCache_set fl c key w ttl' now) = Some OverflowError"
    using TTLCache_set_overflows[of c fl ttl' key w now] by simp
  have u1: "int (length (ttl_store c)) < max_size c \<longrightarrow>
      TTLCache_set fl c key w ttl' now
        = (case to_float fl (case ttl' of Some t \<Rightarrow> t | None \<Rightarrow> default_ttl c) of
             None \<Rightarrow> (Some OverflowError, c)
           | Some x \<Rightarrow> (None, c\<lparr>ttl_store := dict_set key (w, fadd fl now x) (ttl_store c)\<rparr>))"
    by (simp add: TTLCache_set_def)
  have u2: "max_size c \<le> int (length (ttl_store c)) \<and> ttl_store c = (k0, e0) # rest \<longrightarrow>
      TTLCache_set fl c key w ttl' now
        = (case to_float fl (case ttl' of Some t \<Rightarrow> t | None \<Rightarrow> default_ttl c) of
             None \<Rightarrow> (Some OverflowError, c\<lparr>ttl_store := dict_pop k0 (ttl_store c)\<rparr>)
           | Some x \<Rightarrow>
               (None, c\<lparr>ttl_store :=
                         dict_set key (w, fadd fl now x) (dict_pop k0 (ttl_store c))\<rparr>))"
    by (auto simp add: TTLCache_set_def split: option.splits)
  have u3: "max_size c \<le> 0 \<and> ttl_store c = [] \<longrightarrow>
      TTLCache_set fl c key w ttl' now = (Some StopIteration, c)"
    by (simp add: TTLCache_set_def)
  have d1: "\<forall>k'. map_of (dict_pop key st) k' = (if k' = key then None else map_of st k')"
    by (simp add: map_of_dict_pop)
  have d2: "\<forall>k' x. map_of (dict_set key x st) k' = (if k' = key then Some x else map_of st k')"
    by (simp add: map_of_dict_set)
  have d3: "\<forall>k'. map_of (dict_pop key (ttl_store c)) k'
           = (if k' = key then None else map_of (ttl_store c) k')"
    by (simp add: map_of_dict_pop)
  have d4: "\<forall>k' x. map_of (dict_set key x (ttl_store c)) k'
           = (if k' = key then Some x else map_of (ttl_store c) k')"
    by (simp add: map_of_dict_set)
  note parts = a b s s' a' b' t t' u1 u2 u3 d1 d2 d3 d4
  show ?thesis by (intro conjI; fact parts)
qed

theorem cache_get_set_behaviour_witness:
  "map_of ex_cache2 ''k'' = Some (''v'', 1300) \<and>
   CacheService_get ex_cache2 ''k'' 1301 = (None, [(''j'', (''u'', 5000))]) \<and>
   CacheService_get ex_cache2 ''k'' 1299 = (Some ''v'', ex_cache2) \<and>
   CacheService_set ex_floats ex_cache2 ''k'' ''v'' 300 2000
     = (None, [(''j'', (''u'', 5000)), (''k'', (''v'', 2300))]) \<and>
   CacheService_set ex_floats ex_cache2 ''k'' ''v'' (2 ^ 1024) 2000 = (Some OverflowError, ex_cache2) \<and>
   TTLCache_get ex_ttl_cache ''k'' 1301 = (None, ex_ttl_cache\<lparr>ttl_store := []\<rparr>) \<and>
   TTLCache_get ex_ttl_cache ''k'' 1299 = (Some ''v'', ex_ttl_cache) \<and>
   (\<exists>c'. TTLCache_set ex_floats ex_ttl_cache ''k'' ''v'' None 2000 = (None, c') \<and>
         map_of (ttl_store c') ''k'' = Some (''v'', 5600)) \<and>
   fst (TTLCache_set ex_floats ex_ttl_cache ''k'' ''v'' (Some (2 ^ 1024)) 2000) = Some OverflowError"
proof -
  have m: "map_of ex_cache2 ''k'' = Some (''v'', 1300)"
    "map_of (ttl_store ex_ttl_cache) ''k'' = Some (''v'', 1300)"
    by (simp_all add: ex_cache2_def ex_cache_def ex_ttl_cache_def)
  have p: "dict_pop ''k'' ex_cache2 = [(''j'', (''u'', 5000))]"
    "dict_pop ''k'' (ttl_store ex_ttl_cache) = []"
    by (simp_all add: ex_cache2_def ex_cache_def ex_ttl_cache_def dict_pop_def)
  have z: "0 < max_size ex_ttl_cache" "default_ttl ex_ttl_cache = 3600"
    by (simp_all add: ex_ttl_cache_def)
  have f: "to_float ex_floats 300 = Some 300" "to_float ex_floats 3600 = Some 3600"
    "to_float ex_floats (2 ^ 1024) = None"
    "fadd ex_floats 2000 300 = 2300" "fadd ex_floats 2000 3600 = 5600"
    by (simp_all add: ex_floats_def)
  have d: "dict_set ''k'' (''v'', 2300) ex_cache2 = [(''j'', (''u'', 5000)), (''k'', (''v'', 2300))]"
    by (simp add: ex_cache2_def)
  from cache_get_set_behaviour[of ex_cache2 "''k''" "''v''" 1300 1301 ex_floats 300 300
      ex_ttl_cache "''v''" None 3600] m p
  have expired: "CacheService_get ex_cache2 ''k'' 1301 = (None, [(''j'', (''u'', 5000))])"
    "TTLCache_get ex_ttl_cache ''k'' 1301 = (None, ex_ttl_cache\<lparr>ttl_store := []\<rparr>)"
    by simp_all
  from cache_get_set_behaviour[of ex_cache2 "''k''" "''v''" 1300 1299 ex_floats 300 300
      ex_ttl_cache "''v''" None 3600] m
  have live: "CacheService_get ex_cache2 ''k'' 1299 = (Some ''v'', ex_cache2)"
    "TTLCache_get ex_ttl_cache ''k'' 1299 = (Some ''v'', ex_ttl_cache)"
    by simp_all
  from cache_get_set_behaviour[of ex_cache2 "''k''" "''v''" 1300 2000 ex_floats 300 300
      ex_ttl_cache "''v''" None 3600] z f d
  have stored: "CacheService_set ex_floats ex_cache2 ''k'' ''v'' 300 2000
       = (None, [(''j'', (''u'', 5000)), (''k'', (''v'', 2300))])"
    "\<exists>c'. TTLCache_set ex_floats ex_ttl_cache ''k'' ''v'' None 2000 = (None, c') \<and>
         map_of (ttl_store c') ''k'' = Some (''v'', 5600)"
    by simp_all
  from cache_get_set_behaviour[of ex_cache2 "''k''" "''v''" 1300 2000 ex_floats "2 ^ 1024" 0
      ex_ttl_cache "''v''" "Some (2 ^ 1024)" 0] z f(3)
  have refused: "CacheService_set ex_floats ex_cache2 ''k'' ''v'' (2 ^ 1024) 2000
       = (Some OverflowError, ex_cache2)"
    "fst (TTLCache_set ex_floats ex_ttl_cache ''k'' ''v'' (Some (2 ^ 1024)) 2000) = Some OverflowError"
    by simp_all
  from m(1) expired live stored refused show ?thesis by blast
qed

text \<open>
  The claim as written fails at the instant of expiry: an entry set at time 1000 with a TTL
  of 300 is still returned by a \<^verbatim>\<open>get\<close> at time 1300, in both caches, and stays stored.
\<close>

theorem get_at_expiry_instant_is_hit:
  "CacheService_set ex_floats [] ''k'' ''v'' 300 1000 = (None, ex_cache) \<and>
   ex_cache = [(''k'', (''v'', 1300))] \<and>
   CacheService_get ex_cache ''k'' 1300 = (Some ''v'', ex_cache) \<and>
   TTLCache_set ex_floats (TTLCache_init 1024 3600) ''k'' ''v'' (Some 300) 1000 = (None, ex_ttl_cache) \<and>
   ttl_store ex_ttl_cache = [(''k'', (''v'', 1300))] \<and>
   TTLCache_get ex_ttl_cache ''k'' 1300 = (Some ''v'', ex_ttl_cache)"
  by (simp add: CacheService_set_def CacheService_get_def TTLCache_set_def TTLCache_get_def
      TTLCache_init_def ex_cache_def ex_ttl_cache_def ex_floats_def)

section \<open>Facts about the client's transport\<close>

lemma send_attempts_bound:
  "calls (snd (send_attempts session url n as le tr)) \<le> calls tr + length as"
proof (induction as arbitrary: le tr)
  case Nil
  then show ?case by simp
next
  case (Cons a as)
  show ?case
  proof (cases "session a")
    case (Returned r)
    then show ?thesis by (simp add: Let_def)
  next
    case (Raised_Timeout e)
    then show ?thesis
      using Cons.IH[of "Some e" "tr\<lparr>calls := calls tr + 1,
                                    sleeps := sleeps tr @ [2 ^ nat (a - 1)]\<rparr>"]
        Cons.IH[of "Some e" "tr\<lparr>calls := calls tr + 1\<rparr>"]
      by (simp add: Let_def)
  next
    case (Raised_RequestException cls e)
    then show ?thesis
      using Cons.IH[of "Some e" "tr\<lparr>calls := calls tr + 1,
                                    sleeps := sleeps tr @ [2 ^ nat (a - 1)]\<rparr>"]
        Cons.IH[of "Some e" "tr\<lparr>calls := calls tr + 1\<rparr>"]
      by (simp add: Let_def)
  next
    case (Raised_other e)
    then show ?thesis by (simp add: Let_def)
  qed
qed

lemma send_attempts_all_fail:
  assumes "\<forall>a\<in>set as. retried (session a)"
  shows "send_attempts session url n as le tr =
           (Inl (NetworkError (''Request to '' @ url @ '' failed: ''
                   @ (if as = [] then (case le of None \<Rightarrow> ''None'' | Some e \<Rightarrow> e)
                      else exc_str (session (last as))))),
            tr\<lparr>calls := calls tr + length as,
               sleeps := sleeps tr @ map backoff (filter (\<lambda>a. a < n) as)\<rparr>)"
  using assms
proof (induction as arbitrary: le tr)
  case Nil
  then show ?case by simp
next
  case (Cons a as)
  then have r: "retried (session a)" and rest: "\<forall>a\<in>set as. retried (session a)" by simp_all
  show ?case
  proof (cases "session a")
    case (Raised_Timeout e)
    then show ?thesis using Cons.IH[OF rest, of "Some e"]
      by (simp add: Let_def backoff_def)
  next
    case (Raised_RequestException cls e)
    then show ?thesis using Cons.IH[OF rest, of "Some e"]
      by (simp add: Let_def backoff_def)
  qed (use r in simp_all)
qed

lemma send_attempts_stops:
  assumes "\<forall>a\<in>set pre. retried (session a)" and "\<not> retried (session a0)"
  shows "send_attempts session url n (pre @ a0 # post) le tr =
           ((case session a0 of Returned r \<Rightarrow> Inr r | Raised_other e \<Rightarrow> Inl (Uncaught e)
             | _ \<Rightarrow> Inl (Uncaught [])),
            tr\<lparr>calls := calls tr + length pre + 1,
               sleeps := sleeps tr @ map backoff (filter (\<lambda>a. a < n) pre)\<rparr>)"
  using assms
proof (induction pre arbitrary: le tr)
  case Nil
  then show ?case by (cases "session a0") (simp_all add: Let_def)
next
  case (Cons a pre)
  then have r: "retried (session a)" and rest: "\<forall>a\<in>set pre. retried (session a)" by simp_all
  show ?case
  proof (cases "session a")
    case (Raised_Timeout e)
    then show ?thesis using Cons.IH[OF rest Cons.prems(2), of "Some e"]
      by (simp add: Let_def backoff_def)
  next
    case (Raised_RequestException cls e)
    then show ?thesis using Cons.IH[OF rest Cons.prems(2), of "Some e"]
      by (simp add: Let_def backoff_def)
  qed (use r in simp_all)
qed

lemma filter_upto_below: "k \<le> n \<Longrightarrow> filter (\<lambda>a. a < n) [1..k - 1] = [1..k - 1]"
  by (rule filter_True) auto

lemma filter_upto_all: "1 \<le> n \<Longrightarrow> filter (\<lambda>a. a < n) [1..n] = [1..n - 1]"
proof -
  assume "1 \<le> n"
  then have "[1..n] = [1..n - 1] @ [n]" by (simp add: upto_rec2)
  moreover have "filter (\<lambda>a. a < n) [1..n - 1] = [1..n - 1]" by (rule filter_True) auto
  ultimately show ?thesis by simp
qed

lemma last_upto: "1 \<le> n \<Longrightarrow> last [1..n] = n"
  by (simp add: upto_rec2)

subsection \<open>C8: retry and backoff\<close>

text \<open>
  C8, as the code has it. The client keeps \<^verbatim>\<open>max(1, retries)\<close> as its number of attempts and
  \<^verbatim>\<open>_send_request\<close> never calls the session more often. The two \<^verbatim>\<open>except\<close> clauses catch
  \<^verbatim>\<open>Timeout\<close> and \<^verbatim>\<open>RequestException\<close>, so a call that raised any exception of the \<^verbatim>\<open>requests\<close>
  library, of whatever class, is followed by a further attempt after a pause of
  \<^verbatim>\<open>2 ** (attempt - 1)\<close>, and no other call is. When attempt \<open>k\<close> is the first that does not
  raise such an exception, its response, whatever the status code, is returned at once
  after exactly \<open>k\<close> calls and the pauses of attempts \<open>1\<close> to \<open>k - 1\<close> (an exception outside
  the library's classes propagates in the same way). When every attempt raised such an
  exception, the network error is raised with the text of the last failure, after all
  attempts and a pause between consecutive ones, none after the last.
\<close>

theorem send_request_retries_transport_failures:
  "retries (LinkIDClient_init rurl key tmo n cach ttl hdrs) = max 1 n \<and>
   calls (snd (LinkIDClient_send_request client session url)) \<le> nat (retries client) \<and>
   (1 \<le> k \<and> k \<le> retries client \<and> (\<forall>j. 1 \<le> j \<and> j < k \<longrightarrow> retried (session j)) \<longrightarrow>
      (session k = Returned resp \<longrightarrow>
         LinkIDClient_send_request client session url
           = (Inr resp, \<lparr>calls = nat k, sleeps = map backoff [1..k - 1]\<rparr>)) \<and>
      (session k = Raised_other msg \<longrightarrow>
         LinkIDClient_send_request client session url
           = (Inl (Uncaught msg), \<lparr>calls = nat k, sleeps = map backoff [1..k - 1]\<rparr>))) \<and>
   (1 \<le> retries client \<and> (\<forall>j. 1 \<le> j \<and> j \<le> retries client \<longrightarrow> retried (session j)) \<longrightarrow>
      LinkIDClient_send_request client session url
        = (Inl (NetworkError (''Request to '' @ url @ '' failed: ''
                  @ exc_str (session (retries client)))),
           \<lparr>calls = nat (retries client), sleeps = map backoff [1..retries client - 1]\<rparr>)) \<and>
   (\<forall>e. retried (Raised_Timeout e)) \<and>
   (\<forall>cls e. retried (Raised_RequestException cls e)) \<and>
   (\<forall>r. \<not> retried (Returned r)) \<and>
   (\<forall>e. \<not> retried (Raised_other e))"
proof -
  let ?N = "retries client"
  have i: "retries (LinkIDClient_init rurl key tmo n cach ttl hdrs) = max 1 n"
    by (simp add: LinkIDClient_init_def)
  have b: "calls (snd (LinkIDClient_send_request client session url)) \<le> nat ?N"
    using send_attempts_bound[of session url ?N "[1..?N]" None "\<lparr>calls = 0, sleeps = []\<rparr>"]
    by (simp add: LinkIDClient_send_request_def)
  have stop: "LinkIDClient_send_request client session url
           = ((case session k of Returned r \<Rightarrow> Inr r | Raised_other e \<Rightarrow> Inl (Uncaught e)
               | _ \<Rightarrow> Inl (Uncaught [])),
              \<lparr>calls = nat k, sleeps = map backoff [1..k - 1]\<rparr>)"
    if k: "1 \<le> k" "k \<le> ?N" and pre: "\<forall>j. 1 \<le> j \<and> j < k \<longrightarrow> retried (session j)"
      and nr: "\<not> retried (session k)"
  proof -
    have sp: "[1..?N] = [1..k - 1] @ k # [k + 1..?N]" using k by (simp add: upto_split3)
    have pr: "\<forall>a\<in>set [1..k - 1]. retried (session a)" using pre by auto
    have len: "length [1..k - 1] + 1 = nat k" using k by simp
    show ?thesis
      using send_attempts_stops[OF pr nr, of url ?N "[k + 1..?N]" None "\<lparr>calls = 0, sleeps = []\<rparr>"]
        filter_upto_below[OF k(2)] len
      by (simp add: LinkIDClient_send_request_def sp)
  qed
  have ex: "LinkIDClient_send_request client session url
        = (Inl (NetworkError (''Request to '' @ url @ '' failed: '' @ exc_str (session ?N))),
           \<lparr>calls = nat ?N, sleeps = map backoff [1..?N - 1]\<rparr>)"
    if n1: "1 \<le> ?N" and all: "\<forall>j. 1 \<le> j \<and> j \<le> ?N \<longrightarrow> retried (session j)"
  proof -
    have pr: "\<forall>a\<in>set [1..?N]. retried (session a)" using all by auto
    have ne: "[1..?N] \<noteq> []" using n1 by simp
    show ?thesis
      using send_attempts_all_fail[OF pr, of url ?N None "\<lparr>calls = 0, sleeps = []\<rparr>"]
        filter_upto_all[OF n1] last_upto[OF n1] ne n1
      by (simp add: LinkIDClient_send_request_def)
  qed
  have pin: "(\<forall>e. retried (Raised_Timeout e)) \<and>
   (\<forall>cls e. retried (Raised_RequestException cls e)) \<and>
   (\<forall>r. \<not> retried (Returned r)) \<and>
   (\<forall>e. \<not> retried (Raised_other e))"
    by simp
  show ?thesis using i b stop ex pin by auto
qed

theorem send_request_retries_transport_failures_witness:
  "retries ex_client = 3 \<and>
   LinkIDClient_send_request ex_client ex_session ''http://localhost:8080/register''
     = (Inr ex_response, \<lparr>calls = 3, sleeps = [1, 2]\<rparr>) \<and>
   LinkIDClient_send_request ex_client ex_dead_session ''http://localhost:8080/register''
     = (Inl (NetworkError ''Request to http://localhost:8080/register failed: connection refused''),
        \<lparr>calls = 3, sleeps = [1, 2]\<rparr>)"
proof -
  have n: "retries ex_client = 3" by (simp add: ex_client_def LinkIDClient_init_def)
  have pre: "\<forall>j. 1 \<le> j \<and> j < 3 \<longrightarrow> retried (ex_session j)"
    by (auto simp: ex_session_def)
  have ret: "ex_session 3 = Returned ex_response" by (simp add: ex_session_def)
  have all: "\<forall>j. 1 \<le> j \<and> j \<le> retries ex_client \<longrightarrow> retried (ex_dead_session j)"
    by (simp add: ex_dead_session_def)
  have last: "exc_str (ex_dead_session 3) = ''connection refused''"
    by (simp add: ex_dead_session_def)
  have sl: "map backoff [1..3 - 1] = [1, 2]"
    by (simp add: backoff_def upto_rec1)
  from send_request_retries_transport_failures[of _ _ _ _ _ _ _ ex_client ex_session
      "''http://localhost:8080/register''" 3 ex_response]
    n pre ret sl
  have a: "LinkIDClient_send_request ex_client ex_session ''http://localhost:8080/register''
     = (Inr ex_response, \<lparr>calls = 3, sleeps = [1, 2]\<rparr>)"
    by simp
  from send_request_retries_transport_failures[of _ _ _ _ _ _ _ ex_client ex_dead_session
      "''http://localhost:8080/register''"]
    n all last sl
  have b: "LinkIDClient_send_request ex_client ex_dead_session ''http://localhost:8080/register''
     = (Inl (NetworkError ''Request to http://localhost:8080/register failed: connection refused''),
        \<lparr>calls = 3, sleeps = [1, 2]\<rparr>)"
    by simp
  from n a b show ?thesis by blast
qed

text \<open>
  The claim as written fails on the word only. With a resolver URL that has no scheme every
  call raises \<^verbatim>\<open>MissingSchema\<close>, which is neither a timeout nor a failure of a connection, and
  the request is attempted three times, with pauses of 1 and 2, before the network error.
\<close>

theorem malformed_url_is_retried:
  "\<not> connection_or_timeout (ex_schemeless_session 1) \<and>
   \<not> connection_or_timeout (ex_schemeless_session 2) \<and>
   \<not> connection_or_timeout (ex_schemeless_session 3) \<and>
   LinkIDClient_send_request ex_schemeless_client ex_schemeless_session
       ''resolver.linkid.org/register''
     = (Inl (NetworkError ''Request to resolver.linkid.org/register failed: No scheme supplied''),
        \<lparr>calls = 3, sleeps = [1, 2]\<rparr>)"
  by (simp add: LinkIDClient_send_request_def ex_schemeless_client_def ex_schemeless_session_def
      LinkIDClient_init_def upto_rec1 Let_def)

end
